theory Spec2Isabelle
  imports Main "HOL-Library.AList"
begin

section \<open>JSON values, Python dictionaries and errors\<close>

text \<open>
  The client works on decoded JSON: the response content, the request body and the
  entries of the token cache are Python dictionaries with string keys. A dictionary is
  an association list in insertion order (\<open>AList.update\<close> replaces the value of a
  present key in place and appends an absent one, as assignment to a \<open>dict\<close> does).
  A character is a code point below 256, and a \<open>string\<close> is a Python \<open>str\<close> of such
  characters. \<open>==\<close> on values is HOL equality, which is Python's on the strings the code
  compares.

  A JSON number without fraction and exponent is decoded to an \<open>int\<close>, any other number to
  a \<open>float\<close>. A finite float is \<open>m * 2 ^ e\<close> for two integers \<open>m\<close> and \<open>e\<close>; the decoder
  also gives the three floats that are not finite (for \<open>Infinity\<close> and \<open>1e999\<close>,
  \<open>-Infinity\<close>, \<open>NaN\<close>).
\<close>

datatype py_float =
    Finite_float int int
  | Plus_infinity
  | Minus_infinity
  | NaN

datatype json =
    JNull
  | JBool bool
  | JInt int
  | JFloat py_float
  | JStr string
  | JArr "json list"
  | JObj "(string \<times> json) list"

type_synonym dict = "(string \<times> json) list"

text \<open>The exceptions the modelled code can raise. The message of a
  \<open>ClientAuthenticationError\<close> is kept as the format template that was used together
  with the values formatted into it; its second argument is the HTTP response the error
  carries, when the source passes one.\<close>

type_synonym http_response = string

datatype message =
    Entra_error_described json json
      \<comment> \<open>\<open>"Microsoft Entra ID error '({}) {}'".format(error, error_description)\<close>\<close>
  | Entra_error dict
      \<comment> \<open>\<open>"Microsoft Entra ID error '{}'".format(content)\<close>\<close>
  | Unexpected_response dict
      \<comment> \<open>\<open>"Unexpected response from Microsoft Entra ID: {}".format(content)\<close>\<close>

datatype error =
    KeyError string
  | ValueError
  | TypeError
  | OverflowError
  | AttributeError
  | JSONDecodeError
  | DecodeError
  | ClientAuthenticationError message "http_response option"

definition has_key :: "dict \<Rightarrow> string \<Rightarrow> bool" where
  \<comment> \<open>\<open>k in d\<close>\<close>
  "has_key d k = (k \<in> set (map fst d))"

definition dict_get :: "dict \<Rightarrow> string \<Rightarrow> json" where
  \<comment> \<open>\<open>d.get(k)\<close>: \<open>None\<close> for an absent key\<close>
  "dict_get d k = (case map_of d k of None \<Rightarrow> JNull | Some v \<Rightarrow> v)"

definition dict_get_default :: "dict \<Rightarrow> string \<Rightarrow> json \<Rightarrow> json" where
  \<comment> \<open>\<open>d.get(k, default)\<close>\<close>
  "dict_get_default d k v0 = (case map_of d k of None \<Rightarrow> v0 | Some v \<Rightarrow> v)"

definition dict_index :: "dict \<Rightarrow> string \<Rightarrow> error + json" where
  \<comment> \<open>\<open>d[k]\<close>: raises \<open>KeyError\<close> for an absent key\<close>
  "dict_index d k = (case map_of d k of None \<Rightarrow> Inl (KeyError k) | Some v \<Rightarrow> Inr v)"

fun truthy :: "json \<Rightarrow> bool" where
  "truthy JNull = False"
| "truthy (JBool b) = b"
| "truthy (JInt n) = (n \<noteq> 0)"
| "truthy (JFloat x) = (case x of Finite_float m e \<Rightarrow> m \<noteq> 0 | _ \<Rightarrow> True)"
| "truthy (JStr s) = (s \<noteq> [])"
| "truthy (JArr xs) = (xs \<noteq> [])"
| "truthy (JObj d) = (d \<noteq> [])"

subsection \<open>The builtin \<open>int()\<close>\<close>

text \<open>\<open>int(x)\<close> on a decoded JSON value: an integer is itself, a boolean is 0 or 1, a
  finite float is truncated towards zero (\<open>int(7200.9) = 7200\<close>, \<open>int(-0.5) = 0\<close>), an
  infinite float raises \<open>OverflowError\<close> and \<open>NaN\<close> raises \<open>ValueError\<close>, a string is
  parsed (surrounding blanks, an optional sign, decimal digits with single underscores
  between digits) or raises \<open>ValueError\<close>, anything else raises \<open>TypeError\<close>.

  The blanks \<open>int()\<close> ignores around the digits are the space, the characters 0x09 to
  0x0D, and of the other characters below 256 the two that Unicode counts as whitespace,
  0x85 and 0xA0. The characters 0x1C to 0x1F are not among them: \<open>int()\<close> of a string
  that starts or ends with one of these raises \<open>ValueError\<close>.\<close>

definition is_blank :: "char \<Rightarrow> bool" where
  "is_blank c =
     (c \<in> set [CHR '' '', CHR 0x09, CHR 0x0A, CHR 0x0B, CHR 0x0C, CHR 0x0D, CHR 0x85, CHR 0xA0])"

definition strip :: "string \<Rightarrow> string" where
  "strip s = rev (dropWhile is_blank (rev (dropWhile is_blank s)))"

definition is_digit :: "char \<Rightarrow> bool" where
  "is_digit c = (48 \<le> (of_char c :: nat) \<and> (of_char c :: nat) \<le> 57)"

definition digit_val :: "char \<Rightarrow> int" where
  "digit_val c = int (of_char c) - 48"

fun parse_digits :: "int \<Rightarrow> string \<Rightarrow> int option" where
  "parse_digits acc [] = Some acc"
| "parse_digits acc [c] = (if is_digit c then Some (acc * 10 + digit_val c) else None)"
| "parse_digits acc (c # d # cs) =
     (if \<not> is_digit c then None
      else if d = CHR ''_'' then
        (case cs of
           [] \<Rightarrow> None
         | e # _ \<Rightarrow> if is_digit e then parse_digits (acc * 10 + digit_val c) cs else None)
      else parse_digits (acc * 10 + digit_val c) (d # cs))"

definition parse_unsigned :: "string \<Rightarrow> int option" where
  "parse_unsigned s = (if s = [] then None else parse_digits 0 s)"

definition int_of_str :: "string \<Rightarrow> int option" where
  "int_of_str s =
     (case strip s of
        [] \<Rightarrow> None
      | c # cs \<Rightarrow>
          if c = CHR ''-'' then map_option uminus (parse_unsigned cs)
          else if c = CHR ''+'' then parse_unsigned cs
          else parse_unsigned (c # cs))"

definition float_trunc :: "int \<Rightarrow> int \<Rightarrow> int" where
  \<comment> \<open>\<open>m * 2 ^ e\<close> rounded towards zero\<close>
  "float_trunc m e =
     (if e \<ge> 0 then m * 2 ^ nat e
      else if m \<ge> 0 then m div 2 ^ nat (- e)
      else - ((- m) div 2 ^ nat (- e)))"

fun py_int :: "json \<Rightarrow> error + int" where
  "py_int (JInt n) = Inr n"
| "py_int (JBool b) = Inr (if b then 1 else 0)"
| "py_int (JFloat x) =
     (case x of
        Finite_float m e \<Rightarrow> Inr (float_trunc m e)
      | NaN \<Rightarrow> Inl ValueError
      | _ \<Rightarrow> Inl OverflowError)"
| "py_int (JStr s) = (case int_of_str s of None \<Rightarrow> Inl ValueError | Some n \<Rightarrow> Inr n)"
| "py_int JNull = Inl TypeError"
| "py_int (JArr xs) = Inl TypeError"
| "py_int (JObj d) = Inl TypeError"

section \<open>Merging capabilities into a claims challenge\<close>

text \<open>
  \<open>_merge_claims_challenge_and_capabilities(capabilities, claims_challenge)\<close>. The JSON
  parser and serialiser (\<open>json.loads\<close>, \<open>json.dumps\<close>) are the standard library's and are
  parameters \<open>loads\<close> and \<open>dumps\<close>. \<open>claims_dict.setdefault(key, {})\<close> yields the present
  value of the key, whatever it is, and \<open>.update(xms_cc=...)\<close> exists on a dictionary
  only: on any other value the call raises \<open>AttributeError\<close>, as \<open>.setdefault\<close> does when
  the parsed claims are not a dictionary.
\<close>

definition xms_cc :: "string list \<Rightarrow> json" where
  \<comment> \<open>\<open>{"values": capabilities}\<close>\<close>
  "xms_cc capabilities = JObj [(''values'', JArr (map JStr capabilities))]"

definition parse_claims :: "(string \<Rightarrow> error + json) \<Rightarrow> string option \<Rightarrow> error + json" where
  \<comment> \<open>\<open>json.loads(claims_challenge) if claims_challenge else {}\<close>\<close>
  "parse_claims loads claims_challenge =
     (case claims_challenge of
        None \<Rightarrow> Inr (JObj [])
      | Some s \<Rightarrow> if s = [] then Inr (JObj []) else loads s)"

definition set_capabilities :: "string list \<Rightarrow> json \<Rightarrow> error + dict" where
  \<comment> \<open>\<open>claims_dict.setdefault("access_token", {}).update(xms_cc={"values": capabilities})\<close>\<close>
  "set_capabilities capabilities claims =
     (case claims of
        JObj claims_dict \<Rightarrow>
          (case map_of claims_dict ''access_token'' of
             None \<Rightarrow>
               Inr (AList.update ''access_token''
                      (JObj [(''xms_cc'', xms_cc capabilities)]) claims_dict)
           | Some (JObj members) \<Rightarrow>
               Inr (AList.update ''access_token''
                      (JObj (AList.update ''xms_cc'' (xms_cc capabilities) members)) claims_dict)
           | Some _ \<Rightarrow> Inl AttributeError)
      | _ \<Rightarrow> Inl AttributeError)"

definition merge_claims_challenge_and_capabilities ::
  "(string \<Rightarrow> error + json) \<Rightarrow> (json \<Rightarrow> string) \<Rightarrow> string list \<Rightarrow> string option
     \<Rightarrow> error + string option" where
  "merge_claims_challenge_and_capabilities loads dumps capabilities claims_challenge =
     (if capabilities = [] then Inr claims_challenge
      else
        (case parse_claims loads claims_challenge of
           Inl e \<Rightarrow> Inl e
         | Inr claims \<Rightarrow>
             (case set_capabilities capabilities claims of
                Inl e \<Rightarrow> Inl e
              | Inr claims_dict \<Rightarrow> Inr (Some (dumps (JObj claims_dict))))))"

text \<open>The members of \<open>access_token\<close> in parsed claims (none when the key is absent), and the
  claims the merge is defined on: a dictionary whose \<open>access_token\<close>, when present, is a
  dictionary.\<close>

definition access_token_members :: "dict \<Rightarrow> dict" where
  "access_token_members d = (case map_of d ''access_token'' of Some (JObj m) \<Rightarrow> m | _ \<Rightarrow> [])"

definition mergeable :: "dict \<Rightarrow> bool" where
  "mergeable d =
     (case map_of d ''access_token'' of None \<Rightarrow> True | Some (JObj m) \<Rightarrow> True | Some _ \<Rightarrow> False)"

section \<open>Scrubbing secrets and provider-reported errors\<close>

definition scrub_secret :: "string \<Rightarrow> dict \<Rightarrow> dict" where
  \<comment> \<open>\<open>if secret in response: response[secret] = "***"\<close>\<close>
  "scrub_secret secret response =
     (if has_key response secret then AList.update secret (JStr ''***'') response else response)"

definition scrub_secrets :: "dict \<Rightarrow> dict" where
  "scrub_secrets response = fold scrub_secret [''access_token'', ''refresh_token''] response"

text \<open>\<open>_raise_for_error(response, content)\<close>: \<open>Inr ()\<close> is the plain return. In the
  branch that reads \<open>content["error"]\<close> and \<open>content["error_description"]\<close> both keys
  are present, so \<open>dict_get\<close> is the subscript.\<close>

definition raise_for_error :: "http_response \<Rightarrow> dict \<Rightarrow> error + unit" where
  "raise_for_error http_resp content =
     (if \<not> has_key content ''error'' then Inr ()
      else
        (let content = scrub_secrets content in
         if has_key content ''error_description'' then
           Inl (ClientAuthenticationError
                  (Entra_error_described (dict_get content ''error'')
                     (dict_get content ''error_description'')) (Some http_resp))
         else Inl (ClientAuthenticationError (Entra_error content) (Some http_resp))))"

section \<open>The token cache and the client\<close>

text \<open>
  Modelled from the spec: the token-cache store (\<open>msal.TokenCache\<close>) is a library outside
  the sources. Following the spec's cache adapter, a cache holds access-token entries
  and refresh-token entries, each entry a dictionary; a refresh-token search by secret
  returns the entries whose \<open>secret\<close> is the queried value, \<open>remove_rt\<close> evicts the given
  entry and \<open>update_rt\<close> replaces the secret of the given entry. What \<open>add\<close> stores for
  an event is not described, so \<open>add\<close> is a parameter of every function that calls it.
\<close>

type_synonym entry = dict

record token_cache =
  access_tokens :: "entry list"
  refresh_tokens :: "entry list"

definition TokenCache :: token_cache where
  \<comment> \<open>\<open>TokenCache()\<close>: a new, empty cache\<close>
  "TokenCache = \<lparr>access_tokens = [], refresh_tokens = []\<rparr>"

definition search_refresh_tokens :: "token_cache \<Rightarrow> json \<Rightarrow> entry list" where
  \<comment> \<open>\<open>list(cache.search(REFRESH_TOKEN, query={"secret": secret}))\<close>\<close>
  "search_refresh_tokens cache secret =
     filter (\<lambda>e. map_of e ''secret'' = Some secret) (refresh_tokens cache)"

definition remove_rt :: "entry \<Rightarrow> token_cache \<Rightarrow> token_cache" where
  "remove_rt rt_item cache = cache\<lparr>refresh_tokens := removeAll rt_item (refresh_tokens cache)\<rparr>"

definition update_rt :: "entry \<Rightarrow> json \<Rightarrow> token_cache \<Rightarrow> token_cache" where
  "update_rt rt_item new_rt cache =
     cache\<lparr>refresh_tokens :=
       map (\<lambda>e. if e = rt_item then AList.update ''secret'' new_rt e else e)
         (refresh_tokens cache)\<rparr>"

record add_event =
  ev_client_id :: string
  ev_response :: dict
  ev_scope :: "string list"
  ev_token_endpoint :: string

type_synonym cache_add = "add_event \<Rightarrow> int \<Rightarrow> token_cache \<Rightarrow> token_cache"

typedecl cache_persistence_options

type_synonym cache_loader = "cache_persistence_options \<Rightarrow> bool \<Rightarrow> error + token_cache"

text \<open>The attributes of \<open>AadClientBase\<close>; \<open>'p\<close> is the type of the pipeline the subclass
  builds. The per-call keyword arguments the modelled methods read are the fields of
  \<open>call_options\<close>.\<close>

record 'p client =
  self_authority :: string
  self_tenant_id :: string
  self_client_id :: string
  self_additionally_allowed_tenants :: "string list"
  self_pipeline :: 'p
  self_cache :: "token_cache option"
  self_cae_cache :: "token_cache option"
  self_cache_options :: "cache_persistence_options option"
  self_custom_cache :: bool
  self_is_adfs :: bool

record call_options =
  kw_enable_cae :: bool
  kw_claims :: "string option"
  kw_tenant_id :: "string option"
  kw_client_secret :: "string option"

definition no_options :: call_options where
  \<comment> \<open>a call without keyword arguments\<close>
  "no_options = \<lparr>kw_enable_cae = False, kw_claims = None, kw_tenant_id = None,
     kw_client_secret = None\<rparr>"

definition initialize_cache :: "cache_loader \<Rightarrow> 'p client \<Rightarrow> bool \<Rightarrow> error + token_cache \<times> 'p client" where
  "initialize_cache load_persistent_cache self is_cae =
     (case self_cache_options self of
        Some options \<Rightarrow>
          (case load_persistent_cache options is_cae of
             Inl e \<Rightarrow> Inl e
           | Inr c \<Rightarrow>
               Inr (c, if is_cae then self\<lparr>self_cae_cache := Some c\<rparr>
                       else self\<lparr>self_cache := Some c\<rparr>))
      | None \<Rightarrow>
          Inr (TokenCache, if is_cae then self\<lparr>self_cae_cache := Some TokenCache\<rparr>
                           else self\<lparr>self_cache := Some TokenCache\<rparr>))"

definition active_cache :: "'p client \<Rightarrow> call_options \<Rightarrow> token_cache option" where
  \<comment> \<open>\<open>self._cae_cache if kwargs.get("enable_cae") else self._cache\<close>\<close>
  "active_cache self kwargs =
     (if kw_enable_cae kwargs then self_cae_cache self else self_cache self)"

definition get_cache :: "cache_loader \<Rightarrow> 'p client \<Rightarrow> call_options \<Rightarrow> error + token_cache \<times> 'p client" where
  "get_cache load_persistent_cache self kwargs =
     (case active_cache self kwargs of
        Some c \<Rightarrow> Inr (c, self)
      | None \<Rightarrow> initialize_cache load_persistent_cache self (kw_enable_cae kwargs))"

definition put_cache :: "'p client \<Rightarrow> call_options \<Rightarrow> token_cache \<Rightarrow> 'p client" where
  \<comment> \<open>the cache object the call works on is the one the client's attribute refers to:
      its mutations are visible through the attribute\<close>
  "put_cache self kwargs c =
     (if kw_enable_cae kwargs then self\<lparr>self_cae_cache := Some c\<rparr>
      else self\<lparr>self_cache := Some c\<rparr>)"

section \<open>Processing a token response\<close>

record http_request =
  req_method :: string
  req_url :: string
  req_headers :: "(string \<times> string) list"
  req_body :: dict

text \<open>A pipeline response: \<open>resp_context\<close> is
  \<open>response.context.get(ContentDecodePolicy.CONTEXT_NAME)\<close> and \<open>resp_deserialized\<close> is
  what \<open>ContentDecodePolicy.deserialize_from_http_generics(response.http_response)\<close>
  gives, evaluated only when the context holds no (or an empty) content.\<close>

record pipeline_response =
  resp_context :: "dict option"
  resp_deserialized :: "error + dict"
  resp_http_request :: http_request
  resp_http_response :: http_response

record access_token_info =
  token :: json
  expires_on :: int
  token_type :: json
  refresh_on :: "int option"

definition decode_content :: "pipeline_response \<Rightarrow> error + dict" where
  "decode_content response =
     (case resp_context response of
        Some c \<Rightarrow> if c \<noteq> [] then Inr c else resp_deserialized response
      | None \<Rightarrow> resp_deserialized response)"

text \<open>Lines 144 to 153: the request's refresh token is invalid, evict it. The subscript
  \<open>body["refresh_token"]\<close> is evaluated before the search, so a \<open>KeyError\<close> leaves the
  cache as it was.\<close>

definition evict_invalid_grant :: "token_cache \<Rightarrow> dict \<Rightarrow> dict \<Rightarrow> error + token_cache" where
  "evict_invalid_grant cache body content =
     (if dict_get content ''error'' = JStr ''invalid_grant'' then
        (case dict_index body ''refresh_token'' of
           Inl e \<Rightarrow> Inl e
         | Inr secret \<Rightarrow> Inr (fold remove_rt (search_refresh_tokens cache secret) cache))
      else Inr cache)"

text \<open>Lines 154 to 166: a new refresh token came back, update the one cache entry that
  holds the old one and drop the new token from the content.\<close>

definition rotate_refresh_token :: "token_cache \<Rightarrow> dict \<Rightarrow> dict \<Rightarrow> error + token_cache \<times> dict" where
  "rotate_refresh_token cache body content =
     (if has_key content ''refresh_token'' then
        (case dict_index body ''refresh_token'' of
           Inl e \<Rightarrow> Inl e
         | Inr secret \<Rightarrow>
             (case search_refresh_tokens cache secret of
                [cache_entry] \<Rightarrow>
                  Inr (update_rt cache_entry (dict_get content ''refresh_token'') cache,
                       AList.delete ''refresh_token'' content)
              | _ \<Rightarrow> Inr (cache, content)))
      else Inr (cache, content))"

text \<open>Lines 143 to 166. The result is the content as it goes on, or the exception raised,
  together with the cache as the block leaves it.\<close>

definition update_refresh_tokens :: "token_cache \<Rightarrow> dict \<Rightarrow> dict \<Rightarrow> (error + dict) \<times> token_cache" where
  "update_refresh_tokens cache body content =
     (if dict_get body ''grant_type'' = JStr ''refresh_token'' then
        (case evict_invalid_grant cache body content of
           Inl e \<Rightarrow> (Inl e, cache)
         | Inr cache1 \<Rightarrow>
             (case rotate_refresh_token cache1 body content of
                Inl e \<Rightarrow> (Inl e, cache1)
              | Inr (cache2, content2) \<Rightarrow> (Inr content2, cache2)))
      else (Inr content, cache))"

text \<open>Lines 170 to 176.\<close>

definition compute_expires_on :: "int \<Rightarrow> dict \<Rightarrow> error + int" where
  "compute_expires_on request_time content =
     (if has_key content ''expires_on'' then py_int (dict_get content ''expires_on'')
      else if has_key content ''expires_in'' then
        (case py_int (dict_get content ''expires_in'') of
           Inl e \<Rightarrow> Inl e
         | Inr n \<Rightarrow> Inr (request_time + n))
      else Inl (ClientAuthenticationError (Unexpected_response (scrub_secrets content)) None))"

text \<open>Line 178: \<open>int(content.get("expires_in") or expires_on - request_time)\<close>.\<close>

definition compute_expires_in :: "int \<Rightarrow> int \<Rightarrow> dict \<Rightarrow> error + int" where
  "compute_expires_in request_time expires_on_v content =
     (if truthy (dict_get content ''expires_in'') then py_int (dict_get content ''expires_in'')
      else Inr (expires_on_v - request_time))"

text \<open>Lines 179 to 181: the content with \<open>refresh_in\<close> filled in for a long-lived token.\<close>

definition synthesize_refresh_in :: "int \<Rightarrow> dict \<Rightarrow> dict" where
  "synthesize_refresh_in expires_in content =
     (if \<not> has_key content ''refresh_in'' \<and> expires_in \<ge> 7200 then
        AList.update ''refresh_in'' (JInt (expires_in div 2)) content
      else content)"

text \<open>Line 183.\<close>

definition compute_refresh_on :: "int \<Rightarrow> dict \<Rightarrow> error + int option" where
  "compute_refresh_on request_time content =
     (if has_key content ''refresh_in'' then
        (case py_int (dict_get content ''refresh_in'') of
           Inl e \<Rightarrow> Inl e
         | Inr n \<Rightarrow> Inr (Some (request_time + n)))
      else Inr None)"

text \<open>Lines 168 to 186: from the content to the token and the content that is cached.\<close>

definition build_token :: "http_response \<Rightarrow> int \<Rightarrow> dict \<Rightarrow> error + access_token_info \<times> dict" where
  "build_token http_resp request_time content =
     (case raise_for_error http_resp content of
        Inl e \<Rightarrow> Inl e
      | Inr _ \<Rightarrow>
     (case compute_expires_on request_time content of
        Inl e \<Rightarrow> Inl e
      | Inr expires_on_v \<Rightarrow>
     (case compute_expires_in request_time expires_on_v content of
        Inl e \<Rightarrow> Inl e
      | Inr expires_in \<Rightarrow>
     (let content = synthesize_refresh_in expires_in content in
      case compute_refresh_on request_time content of
        Inl e \<Rightarrow> Inl e
      | Inr refresh_on_v \<Rightarrow>
     (case dict_index content ''access_token'' of
        Inl e \<Rightarrow> Inl e
      | Inr access_token \<Rightarrow>
          Inr (\<lparr>token = access_token, expires_on = expires_on_v,
                token_type = dict_get_default content ''token_type'' (JStr ''Bearer''),
                refresh_on = refresh_on_v\<rparr>, content))))))"

text \<open>\<open>str.split()\<close>: the maximal runs of non-whitespace characters. Whitespace is what
  \<open>str.isspace\<close> accepts: below 256 the space, 0x09 to 0x0D, 0x1C to 0x1F, 0x85 and 0xA0.\<close>

definition is_space :: "char \<Rightarrow> bool" where
  "is_space c =
     (c \<in> set [CHR '' '', CHR 0x09, CHR 0x0A, CHR 0x0B, CHR 0x0C, CHR 0x0D,
                CHR 0x1C, CHR 0x1D, CHR 0x1E, CHR 0x1F, CHR 0x85, CHR 0xA0])"

fun split_acc :: "string \<Rightarrow> string \<Rightarrow> string list" where
  "split_acc w [] = (if w = [] then [] else [rev w])"
| "split_acc w (c # cs) =
     (if is_space c then (if w = [] then split_acc [] cs else rev w # split_acc [] cs)
      else split_acc (c # w) cs)"

definition str_split :: "json \<Rightarrow> error + string list" where
  "str_split v = (case v of JStr s \<Rightarrow> Inr (split_acc [] s) | _ \<Rightarrow> Inl AttributeError)"

text \<open>Lines 189 to 197: the event given to \<open>cache.add\<close>.\<close>

definition cache_event :: "'p client \<Rightarrow> http_request \<Rightarrow> dict \<Rightarrow> error + add_event" where
  "cache_event self request content =
     (case dict_index (req_body request) ''scope'' of
        Inl e \<Rightarrow> Inl e
      | Inr scope \<Rightarrow>
          (case str_split scope of
             Inl e \<Rightarrow> Inl e
           | Inr scopes \<Rightarrow>
               Inr \<lparr>ev_client_id = self_client_id self, ev_response = content,
                    ev_scope = scopes, ev_token_endpoint = req_url request\<rparr>))"

text \<open>\<open>_process_response\<close>. The result is the token or the exception raised, together
  with the client as the call leaves it: the cache may have been created, and it keeps
  what was evicted or updated before an exception.\<close>

definition process_response ::
  "cache_add \<Rightarrow> cache_loader \<Rightarrow> 'p client \<Rightarrow> pipeline_response \<Rightarrow> int \<Rightarrow> call_options
     \<Rightarrow> (error + access_token_info) \<times> 'p client" where
  "process_response add load_persistent_cache self response request_time kwargs =
     (case decode_content response of
        Inl e \<Rightarrow> (Inl e, self)
      | Inr content \<Rightarrow>
     (case get_cache load_persistent_cache self kwargs of
        Inl e \<Rightarrow> (Inl e, self)
      | Inr (cache, self1) \<Rightarrow>
     (case update_refresh_tokens cache (req_body (resp_http_request response)) content of
        (Inl e, cache1) \<Rightarrow> (Inl e, put_cache self1 kwargs cache1)
      | (Inr content1, cache1) \<Rightarrow>
     (case build_token (resp_http_response response) request_time content1 of
        Inl e \<Rightarrow> (Inl e, put_cache self1 kwargs cache1)
      | Inr (token_v, content2) \<Rightarrow>
     (case cache_event self1 (resp_http_request response) content2 of
        Inl e \<Rightarrow> (Inl e, put_cache self1 kwargs cache1)
      | Inr event \<Rightarrow>
          (Inr token_v, put_cache self1 kwargs (add event request_time cache1)))))))"

section \<open>The token endpoint and the requests\<close>

text \<open>\<open>sep.join(parts)\<close> and \<open>str.lower()\<close>: below 256 the capital letters are \<open>A\<close> to \<open>Z\<close>
  and 0xC0 to 0xDE without 0xD7, each 32 below its small letter.\<close>

fun join :: "string \<Rightarrow> string list \<Rightarrow> string" where
  "join sep [] = []"
| "join sep [x] = x"
| "join sep (x # y # ys) = x @ sep @ join sep (y # ys)"

definition lower_char :: "char \<Rightarrow> char" where
  "lower_char c =
     (case map_of
             (zip (''ABCDEFGHIJKLMNOPQRSTUVWXYZ'' @
                    [CHR 0xC0, CHR 0xC1, CHR 0xC2, CHR 0xC3, CHR 0xC4, CHR 0xC5, CHR 0xC6, CHR 0xC7,
                     CHR 0xC8, CHR 0xC9, CHR 0xCA, CHR 0xCB, CHR 0xCC, CHR 0xCD, CHR 0xCE, CHR 0xCF,
                     CHR 0xD0, CHR 0xD1, CHR 0xD2, CHR 0xD3, CHR 0xD4, CHR 0xD5, CHR 0xD6, CHR 0xD8,
                     CHR 0xD9, CHR 0xDA, CHR 0xDB, CHR 0xDC, CHR 0xDD, CHR 0xDE])
                  (''abcdefghijklmnopqrstuvwxyz'' @
                    [CHR 0xE0, CHR 0xE1, CHR 0xE2, CHR 0xE3, CHR 0xE4, CHR 0xE5, CHR 0xE6, CHR 0xE7,
                     CHR 0xE8, CHR 0xE9, CHR 0xEA, CHR 0xEB, CHR 0xEC, CHR 0xED, CHR 0xEE, CHR 0xEF,
                     CHR 0xF0, CHR 0xF1, CHR 0xF2, CHR 0xF3, CHR 0xF4, CHR 0xF5, CHR 0xF6, CHR 0xF8,
                     CHR 0xF9, CHR 0xFA, CHR 0xFB, CHR 0xFC, CHR 0xFD, CHR 0xFE])) c of
        None \<Rightarrow> c
      | Some l \<Rightarrow> l)"

definition lower :: "string \<Rightarrow> string" where
  "lower s = map lower_char s"

text \<open>\<open>resolve_tenant\<close> (the package's \<open>utils\<close>) is not in the sources: it is the parameter
  \<open>resolve_tenant\<close>, given the default tenant, the additionally allowed tenants and the
  call's keyword arguments, and it returns the tenant or raises.\<close>

type_synonym tenant_resolver = "string \<Rightarrow> string list \<Rightarrow> call_options \<Rightarrow> error + string"

definition get_token_url :: "tenant_resolver \<Rightarrow> 'p client \<Rightarrow> call_options \<Rightarrow> error + string" where
  "get_token_url resolve_tenant self kwargs =
     (case resolve_tenant (self_tenant_id self) (self_additionally_allowed_tenants self) kwargs of
        Inl e \<Rightarrow> Inl e
      | Inr tenant \<Rightarrow> Inr (join ''/'' [self_authority self, tenant, ''oauth2/v2.0/token'']))"

definition post :: "tenant_resolver \<Rightarrow> 'p client \<Rightarrow> dict \<Rightarrow> call_options \<Rightarrow> error + http_request" where
  "post resolve_tenant self data kwargs =
     (case get_token_url resolve_tenant self kwargs of
        Inl e \<Rightarrow> Inl e
      | Inr url \<Rightarrow>
          Inr \<lparr>req_method = ''POST'', req_url = url,
               req_headers = [(''Content-Type'', ''application/x-www-form-urlencoded'')],
               req_body = data\<rparr>)"

section \<open>The client assertion\<close>

text \<open>\<open>base64.urlsafe_b64encode\<close> (RFC 4648, section 5, with the \<open>=\<close> padding the Python
  function keeps). A byte is a \<open>char\<close> as well. \<open>json.dumps\<close> writes ASCII text and the
  encoder writes ASCII bytes, so \<open>encode("utf-8")\<close> and \<open>decode("utf-8")\<close> are the identity
  where the signer calls them.\<close>

definition b64_alphabet :: string where
  "b64_alphabet = ''ABCDEFGHIJKLMNOPQRSTUVWXYZabcdefghijklmnopqrstuvwxyz0123456789-_''"

definition b64_char :: "nat \<Rightarrow> char" where
  "b64_char n = b64_alphabet ! (n mod 64)"

text \<open>The four 6-bit groups of three bytes; a missing byte counts as zero bits.\<close>

definition sextet1 :: "char \<Rightarrow> nat" where
  "sextet1 a = of_char a div 4"

definition sextet2 :: "char \<Rightarrow> char \<Rightarrow> nat" where
  "sextet2 a b = (of_char a mod 4) * 16 + of_char b div 16"

definition sextet3 :: "char \<Rightarrow> char \<Rightarrow> nat" where
  "sextet3 b c = (of_char b mod 16) * 4 + of_char c div 64"

definition sextet4 :: "char \<Rightarrow> nat" where
  "sextet4 c = of_char c mod 64"

fun urlsafe_b64encode :: "string \<Rightarrow> string" where
  "urlsafe_b64encode [] = []"
| "urlsafe_b64encode [a] =
     [b64_char (sextet1 a), b64_char (sextet2 a (CHR 0x00)), CHR ''='', CHR ''='']"
| "urlsafe_b64encode [a, b] =
     [b64_char (sextet1 a), b64_char (sextet2 a b), b64_char (sextet3 b (CHR 0x00)), CHR ''='']"
| "urlsafe_b64encode (a # b # c # rest) =
     [b64_char (sextet1 a), b64_char (sextet2 a b), b64_char (sextet3 b c), b64_char (sextet4 c)]
     @ urlsafe_b64encode rest"

text \<open>\<open>AadClientCertificate\<close> is not in the sources; the signer reads its two thumbprints
  and calls its two signing operations.\<close>

record certificate =
  thumbprint :: string
  sha256_thumbprint :: string
  sign_ps256 :: "string \<Rightarrow> string"
  sign_rs256 :: "string \<Rightarrow> string"

text \<open>Lines 243 to 250 and 254 to 261: the header and the payload of the assertion.\<close>

definition assertion_headers :: "'p client \<Rightarrow> certificate \<Rightarrow> dict" where
  "assertion_headers self certificate =
     (let headers = [(''typ'', JStr ''JWT'')] in
      if self_is_adfs self then
        AList.update ''x5t'' (JStr (thumbprint certificate))
          (AList.update ''alg'' (JStr ''RS256'') headers)
      else
        AList.update ''x5t#S256'' (JStr (sha256_thumbprint certificate))
          (AList.update ''alg'' (JStr ''PS256'') headers))"

definition assertion_payload :: "'p client \<Rightarrow> string \<Rightarrow> string \<Rightarrow> int \<Rightarrow> dict" where
  "assertion_payload self jti aud now =
     [(''jti'', JStr jti), (''aud'', JStr aud), (''iss'', JStr (self_client_id self)),
      (''sub'', JStr (self_client_id self)), (''nbf'', JInt now), (''exp'', JInt (now + 60 * 30))]"

text \<open>\<open>_get_client_certificate_assertion\<close>. \<open>now\<close> is \<open>int(time.time())\<close> and \<open>jti\<close> is
  \<open>str(uuid4())\<close> at the call.\<close>

definition get_client_certificate_assertion ::
  "(json \<Rightarrow> string) \<Rightarrow> tenant_resolver \<Rightarrow> int \<Rightarrow> string \<Rightarrow> 'p client \<Rightarrow> certificate
     \<Rightarrow> call_options \<Rightarrow> error + string" where
  "get_client_certificate_assertion dumps resolve_tenant now jti self certificate kwargs =
     (let jwt_header = dumps (JObj (assertion_headers self certificate)) in
      case get_token_url resolve_tenant self kwargs of
        Inl e \<Rightarrow> Inl e
      | Inr aud \<Rightarrow>
          (let payload = dumps (JObj (assertion_payload self jti aud now));
               jws = urlsafe_b64encode jwt_header @ ''.'' @ urlsafe_b64encode payload;
               signature = (if \<not> self_is_adfs self then sign_ps256 certificate jws
                            else sign_rs256 certificate jws);
               jwt_bytes = jws @ ''.'' @ urlsafe_b64encode signature
           in Inr jwt_bytes))"

section \<open>The on-behalf-of requests\<close>

definition JWT_BEARER_ASSERTION :: string where
  "JWT_BEARER_ASSERTION = ''urn:ietf:params:oauth:client-assertion-type:jwt-bearer''"

text \<open>The client credential of an on-behalf-of request: a certificate, a dictionary whose
  \<open>client_assertion\<close> is a callable (kept as the string the call returns), or anything
  else, which is sent as the client secret.\<close>

datatype client_credential =
    Certificate certificate
  | Assertion_dict string
  | Secret string

text \<open>In every request builder: \<open>claims = _merge_claims_challenge_and_capabilities(["CP1"]
  if kwargs.get("enable_cae") else [], kwargs.get("claims"))\<close>, then
  \<open>if claims: data["claims"] = claims\<close>.\<close>

definition add_claims ::
  "(string \<Rightarrow> error + json) \<Rightarrow> (json \<Rightarrow> string) \<Rightarrow> call_options \<Rightarrow> dict \<Rightarrow> error + dict" where
  "add_claims loads dumps kwargs data =
     (case merge_claims_challenge_and_capabilities loads dumps
             (if kw_enable_cae kwargs then [''CP1''] else []) (kw_claims kwargs) of
        Inl e \<Rightarrow> Inl e
      | Inr None \<Rightarrow> Inr data
      | Inr (Some claims) \<Rightarrow>
          Inr (if claims \<noteq> [] then AList.update ''claims'' (JStr claims) data else data))"

text \<open>Lines 312 to 320, and the same text at lines 366 to 374: the credential's fields.
  The assertion signer is called with the certificate alone, so without keyword
  arguments.\<close>

definition add_client_credential ::
  "(json \<Rightarrow> string) \<Rightarrow> tenant_resolver \<Rightarrow> int \<Rightarrow> string \<Rightarrow> 'p client \<Rightarrow> client_credential
     \<Rightarrow> dict \<Rightarrow> error + dict" where
  "add_client_credential dumps resolve_tenant now jti self credential data =
     (case credential of
        Certificate cert \<Rightarrow>
          (case get_client_certificate_assertion dumps resolve_tenant now jti self cert
                  no_options of
             Inl e \<Rightarrow> Inl e
           | Inr assertion \<Rightarrow>
               Inr (AList.update ''client_assertion_type'' (JStr JWT_BEARER_ASSERTION)
                      (AList.update ''client_assertion'' (JStr assertion) data)))
      | Assertion_dict assertion \<Rightarrow>
          Inr (AList.update ''client_assertion_type'' (JStr JWT_BEARER_ASSERTION)
                 (AList.update ''client_assertion'' (JStr assertion) data))
      | Secret secret \<Rightarrow> Inr (AList.update ''client_secret'' (JStr secret) data))"

definition get_on_behalf_of_request ::
  "(string \<Rightarrow> error + json) \<Rightarrow> (json \<Rightarrow> string) \<Rightarrow> tenant_resolver \<Rightarrow> int \<Rightarrow> string \<Rightarrow> 'p client
     \<Rightarrow> string list \<Rightarrow> client_credential \<Rightarrow> string \<Rightarrow> call_options \<Rightarrow> error + http_request" where
  "get_on_behalf_of_request loads dumps resolve_tenant now jti self scopes credential
       user_assertion kwargs =
     (let data = [(''assertion'', JStr user_assertion),
                  (''client_id'', JStr (self_client_id self)),
                  (''grant_type'', JStr ''urn:ietf:params:oauth:grant-type:jwt-bearer''),
                  (''requested_token_use'', JStr ''on_behalf_of''),
                  (''scope'', JStr (join '' '' scopes))] in
      case add_claims loads dumps kwargs data of
        Inl e \<Rightarrow> Inl e
      | Inr data1 \<Rightarrow>
          (case add_client_credential dumps resolve_tenant now jti self credential data1 of
             Inl e \<Rightarrow> Inl e
           | Inr data2 \<Rightarrow> post resolve_tenant self data2 kwargs))"

definition get_refresh_token_on_behalf_of_request ::
  "(string \<Rightarrow> error + json) \<Rightarrow> (json \<Rightarrow> string) \<Rightarrow> tenant_resolver \<Rightarrow> int \<Rightarrow> string \<Rightarrow> 'p client
     \<Rightarrow> string list \<Rightarrow> client_credential \<Rightarrow> string \<Rightarrow> call_options \<Rightarrow> error + http_request" where
  "get_refresh_token_on_behalf_of_request loads dumps resolve_tenant now jti self scopes
       credential refresh_token kwargs =
     (let data = [(''grant_type'', JStr ''refresh_token''),
                  (''refresh_token'', JStr refresh_token),
                  (''scope'', JStr (join '' '' scopes)),
                  (''client_id'', JStr (self_client_id self)),
                  (''client_info'', JInt 1)] in
      case add_claims loads dumps kwargs data of
        Inl e \<Rightarrow> Inl e
      | Inr data1 \<Rightarrow>
          (case add_client_credential dumps resolve_tenant now jti self credential data1 of
             Inl e \<Rightarrow> Inl e
           | Inr data2 \<Rightarrow> post resolve_tenant self data2 kwargs))"

section \<open>Construction and the pickled state\<close>

text \<open>\<open>__init__\<close>. \<open>normalize_authority\<close> and \<open>get_default_authority()\<close> (the package's
  \<open>utils\<close>) are parameters, and \<open>pipeline\<close> is what the subclass's \<open>_build_pipeline\<close>
  returns. A \<open>TokenCache\<close> object is truthy, so a cache counts as supplied when it is not
  \<open>None\<close>.\<close>

definition init ::
  "(string \<Rightarrow> error + string) \<Rightarrow> string \<Rightarrow> 'p \<Rightarrow> string \<Rightarrow> string \<Rightarrow> string option
     \<Rightarrow> token_cache option \<Rightarrow> token_cache option \<Rightarrow> string list option
     \<Rightarrow> cache_persistence_options option \<Rightarrow> error + 'p client" where
  "init normalize_authority default_authority pipeline tenant client authority cache
       cae_cache additionally_allowed_tenants cache_persistence_options =
     (case (case authority of
              None \<Rightarrow> Inr default_authority
            | Some a \<Rightarrow> if a \<noteq> [] then normalize_authority a else Inr default_authority) of
        Inl e \<Rightarrow> Inl e
      | Inr normalized \<Rightarrow>
          Inr \<lparr>self_authority = normalized,
               self_tenant_id = tenant,
               self_client_id = client,
               self_additionally_allowed_tenants =
                 (case additionally_allowed_tenants of None \<Rightarrow> [] | Some ts \<Rightarrow> ts),
               self_pipeline = pipeline,
               self_cache = cache,
               self_cae_cache = cae_cache,
               self_cache_options = cache_persistence_options,
               self_custom_cache = (cache \<noteq> None \<or> cae_cache \<noteq> None),
               self_is_adfs = (lower tenant = ''adfs'')\<rparr>)"

text \<open>The object's \<open>__dict__\<close>: the attributes by name, in the order \<open>__init__\<close> sets them.\<close>

datatype 'p attr =
    Str string
  | Strs "string list"
  | Pipeline 'p
  | Cache "token_cache option"
  | Options "cache_persistence_options option"
  | Flag bool

type_synonym 'p attrs = "(string \<times> 'p attr) list"

definition obj_dict :: "'p client \<Rightarrow> 'p attrs" where
  "obj_dict self =
     [(''_authority'', Str (self_authority self)),
      (''_tenant_id'', Str (self_tenant_id self)),
      (''_client_id'', Str (self_client_id self)),
      (''_additionally_allowed_tenants'', Strs (self_additionally_allowed_tenants self)),
      (''_pipeline'', Pipeline (self_pipeline self)),
      (''_cache'', Cache (self_cache self)),
      (''_cae_cache'', Cache (self_cae_cache self)),
      (''_cache_options'', Options (self_cache_options self)),
      (''_custom_cache'', Flag (self_custom_cache self)),
      (''_is_adfs'', Flag (self_is_adfs self))]"

text \<open>The client a \<open>__dict__\<close> is the attributes of, when it has all of them.\<close>

definition client_of :: "'p attrs \<Rightarrow> 'p client option" where
  "client_of d =
     (case (map_of d ''_authority'', map_of d ''_tenant_id'', map_of d ''_client_id'',
            map_of d ''_additionally_allowed_tenants'', map_of d ''_pipeline'',
            map_of d ''_cache'', map_of d ''_cae_cache'', map_of d ''_cache_options'',
            map_of d ''_custom_cache'', map_of d ''_is_adfs'') of
        (Some (Str a), Some (Str t), Some (Str c), Some (Strs ts), Some (Pipeline p),
         Some (Cache c1), Some (Cache c2), Some (Options opts), Some (Flag cc),
         Some (Flag adfs)) \<Rightarrow>
          Some \<lparr>self_authority = a, self_tenant_id = t, self_client_id = c,
                self_additionally_allowed_tenants = ts, self_pipeline = p, self_cache = c1,
                self_cae_cache = c2, self_cache_options = opts, self_custom_cache = cc,
                self_is_adfs = adfs\<rparr>
      | _ \<Rightarrow> None)"

fun attr_truthy :: "'p attr \<Rightarrow> bool" where
  "attr_truthy (Str s) = (s \<noteq> [])"
| "attr_truthy (Strs ts) = (ts \<noteq> [])"
| "attr_truthy (Pipeline p) = True"
| "attr_truthy (Cache c) = (c \<noteq> None)"
| "attr_truthy (Options opts) = (opts \<noteq> None)"
| "attr_truthy (Flag b) = b"

definition getstate :: "'p client \<Rightarrow> 'p attrs" where
  \<comment> \<open>\<open>__getstate__\<close>\<close>
  "getstate self =
     (let state = obj_dict self in
      if \<not> self_custom_cache self then AList.delete ''_cae_cache'' (AList.delete ''_cache'' state)
      else state)"

text \<open>\<open>__setstate__\<close> on an object whose \<open>__dict__\<close> is \<open>d\<close> (empty for the object that
  unpickling creates): the \<open>__dict__\<close> afterwards. Reading \<open>self._custom_cache\<close> raises
  \<open>AttributeError\<close> when the attribute is missing.\<close>

definition setstate :: "'p attrs \<Rightarrow> 'p attrs \<Rightarrow> error + 'p attrs" where
  "setstate d state =
     (let d1 = fold (\<lambda>(k, v). AList.update k v) state d in
      case map_of d1 ''_custom_cache'' of
        None \<Rightarrow> Inl AttributeError
      | Some flag \<Rightarrow>
          if \<not> attr_truthy flag then
            Inr (AList.update ''_cae_cache'' (Cache None) (AList.update ''_cache'' (Cache None) d1))
          else Inr d1)"

section \<open>Sample values\<close>

text \<open>Concrete inputs at which the properties below are instantiated.\<close>

text \<open>\<open>json.dumps\<close> and \<open>json.loads\<close> tabulated on the sample values and texts; every
  other text is taken as malformed.\<close>

definition sample_json :: "(json \<times> string) list" where
  "sample_json =
     [(JObj [], ''{}''),
      (JObj [(''access_token'', JInt 1)], ''{\"access_token\": 1}''),
      (JObj [(''id_token'', JNull), (''access_token'', JObj [(''nbf'', JNull)])],
       ''{\"id_token\": null, \"access_token\": {\"nbf\": null}}''),
      (JObj [(''id_token'', JNull),
             (''access_token'',
               JObj [(''nbf'', JNull), (''xms_cc'', JObj [(''values'', JArr [JStr ''CP1''])])])],
       ''{\"id_token\": null, \"access_token\": {\"nbf\": null, \"xms_cc\": {\"values\": [\"CP1\"]}}}''),
      (JObj [(''typ'', JStr ''JWT''), (''alg'', JStr ''PS256''), (''x5t#S256'', JStr ''c2hhMjU2'')],
       ''{\"typ\": \"JWT\", \"alg\": \"PS256\", \"x5t#S256\": \"c2hhMjU2\"}''),
      (JObj [(''typ'', JStr ''JWT''), (''alg'', JStr ''RS256''), (''x5t'', JStr ''c2hhMQ=='')],
       ''{\"typ\": \"JWT\", \"alg\": \"RS256\", \"x5t\": \"c2hhMQ==\"}''),
      (JObj [(''jti'', JStr ''jti-1''),
             (''aud'', JStr ''https://login.microsoftonline.com/tenant/oauth2/v2.0/token''),
             (''iss'', JStr ''client''), (''sub'', JStr ''client''),
             (''nbf'', JInt 1000), (''exp'', JInt 2800)],
       ''{\"jti\": \"jti-1\", \"aud\": \"https://login.microsoftonline.com/tenant/oauth2/v2.0/token\", \"iss\": \"client\", \"sub\": \"client\", \"nbf\": 1000, \"exp\": 2800}''),
      (JObj [(''jti'', JStr ''jti-1''),
             (''aud'', JStr ''https://adfs.contoso.com/ADFS/oauth2/v2.0/token''),
             (''iss'', JStr ''client''), (''sub'', JStr ''client''),
             (''nbf'', JInt 1000), (''exp'', JInt 2800)],
       ''{\"jti\": \"jti-1\", \"aud\": \"https://adfs.contoso.com/ADFS/oauth2/v2.0/token\", \"iss\": \"client\", \"sub\": \"client\", \"nbf\": 1000, \"exp\": 2800}''),
      (JObj [(''access_token'', JObj [(''xms_cc'', JObj [(''values'', JArr [JStr ''CP1''])])])],
       ''{\"access_token\": {\"xms_cc\": {\"values\": [\"CP1\"]}}}'')]"

definition loads_sample :: "string \<Rightarrow> error + json" where
  "loads_sample s =
     (case map_of (map (\<lambda>(v, t). (t, v)) sample_json) s of
        None \<Rightarrow> Inl JSONDecodeError
      | Some v \<Rightarrow> Inr v)"

definition dumps_sample :: "json \<Rightarrow> string" where
  "dumps_sample v = (case map_of sample_json v of None \<Rightarrow> ''null'' | Some t \<Rightarrow> t)"

definition add_sample :: cache_add where
  \<comment> \<open>a stand-in for \<open>cache.add\<close>: it keeps the response among the access-token entries\<close>
  "add_sample event now cache = cache\<lparr>access_tokens := ev_response event # access_tokens cache\<rparr>"

definition load_sample :: cache_loader where
  "load_sample options is_cae = Inr TokenCache"

definition sample_cache :: token_cache where
  "sample_cache =
     \<lparr>access_tokens = [],
      refresh_tokens = [[(''secret'', JStr ''old-rt''), (''client_id'', JStr ''client'')],
                        [(''secret'', JStr ''other-rt''), (''client_id'', JStr ''client'')]]\<rparr>"

definition sample_client :: "unit client" where
  "sample_client =
     \<lparr>self_authority = ''https://login.microsoftonline.com'',
      self_tenant_id = ''tenant'',
      self_client_id = ''client'',
      self_additionally_allowed_tenants = [],
      self_pipeline = (),
      self_cache = Some sample_cache,
      self_cae_cache = None,
      self_cache_options = None,
      self_custom_cache = True,
      self_is_adfs = False\<rparr>"

definition refresh_request :: http_request where
  "refresh_request =
     \<lparr>req_method = ''POST'',
      req_url = ''https://login.microsoftonline.com/tenant/oauth2/v2.0/token'',
      req_headers = [(''Content-Type'', ''application/x-www-form-urlencoded'')],
      req_body = [(''grant_type'', JStr ''refresh_token''), (''refresh_token'', JStr ''old-rt''),
                  (''scope'', JStr ''scope-a scope-b''), (''client_id'', JStr ''client''),
                  (''client_info'', JInt 1)]\<rparr>"

definition invalid_grant_response :: pipeline_response where
  "invalid_grant_response =
     \<lparr>resp_context = None,
      resp_deserialized = Inr [(''error'', JStr ''invalid_grant''),
                              (''error_description'', JStr ''the refresh token expired'')],
      resp_http_request = refresh_request,
      resp_http_response = ''400''\<rparr>"

definition token_response :: pipeline_response where
  "token_response =
     \<lparr>resp_context = Some [(''token_type'', JStr ''Bearer''), (''expires_in'', JInt 7200),
                           (''access_token'', JStr ''at-1''), (''refresh_token'', JStr ''new-rt'')],
      resp_deserialized = Inl DecodeError,
      resp_http_request = refresh_request,
      resp_http_response = ''200''\<rparr>"

definition ambiguous_cache :: token_cache where
  "ambiguous_cache =
     \<lparr>access_tokens = [],
      refresh_tokens = [[(''secret'', JStr ''old-rt''), (''client_id'', JStr ''client'')],
                        [(''secret'', JStr ''old-rt''), (''client_id'', JStr ''other-client'')]]\<rparr>"

definition invalid_grant_with_token_response :: pipeline_response where
  "invalid_grant_with_token_response =
     \<lparr>resp_context = Some [(''error'', JStr ''invalid_grant''), (''refresh_token'', JStr ''new-rt'')],
      resp_deserialized = Inl DecodeError,
      resp_http_request = refresh_request,
      resp_http_response = ''400''\<rparr>"

definition client_credentials_request :: http_request where
  "client_credentials_request =
     \<lparr>req_method = ''POST'',
      req_url = ''https://login.microsoftonline.com/tenant/oauth2/v2.0/token'',
      req_headers = [(''Content-Type'', ''application/x-www-form-urlencoded'')],
      req_body = [(''client_id'', JStr ''client''), (''client_secret'', JStr ''s3cret''),
                  (''grant_type'', JStr ''client_credentials''), (''scope'', JStr ''scope-a'')]\<rparr>"



text \<open>A tenant resolver for the concrete inputs: the per-call tenant when it is the default
  tenant or an allowed one, else an error.\<close>

definition resolve_sample :: tenant_resolver where
  "resolve_sample default_tenant allowed kwargs =
     (case kw_tenant_id kwargs of
        None \<Rightarrow> Inr default_tenant
      | Some t \<Rightarrow>
          if t = default_tenant \<or> t \<in> set allowed then Inr t else Inl ValueError)"

definition sample_certificate :: certificate where
  \<comment> \<open>the signatures have the length of a 2048-bit RSA signature\<close>
  "sample_certificate =
     \<lparr>thumbprint = ''c2hhMQ=='',
      sha256_thumbprint = ''c2hhMjU2'',
      sign_ps256 = (\<lambda>jws. replicate 256 (CHR 0x01)),
      sign_rs256 = (\<lambda>jws. replicate 256 (CHR 0x02))\<rparr>"

definition normalize_sample :: "string \<Rightarrow> error + string" where
  "normalize_sample authority = Inr authority"

definition adfs_client :: "unit client" where
  "adfs_client =
     \<lparr>self_authority = ''https://adfs.contoso.com'',
      self_tenant_id = ''ADFS'',
      self_client_id = ''client'',
      self_additionally_allowed_tenants = [],
      self_pipeline = (),
      self_cache = None,
      self_cae_cache = None,
      self_cache_options = None,
      self_custom_cache = False,
      self_is_adfs = True\<rparr>"

definition obo_client :: "unit client" where
  \<comment> \<open>\<open>sample_client\<close> with \<open>additionally_allowed_tenants=["other-tenant"]\<close>\<close>
  "obo_client = sample_client\<lparr>self_additionally_allowed_tenants := [''other-tenant'']\<rparr>"

definition override_options :: call_options where
  \<comment> \<open>a call with \<open>tenant_id="other-tenant"\<close>\<close>
  "override_options = no_options\<lparr>kw_tenant_id := Some ''other-tenant''\<rparr>"

text \<open>Responses to a client-credentials request: with \<open>expires_on\<close> alone (as a string, the
  way the service sends it), with a lifetime below two hours, and with an \<open>expires_in\<close> of
  zero beside an \<open>expires_on\<close>.\<close>

definition derived_response :: pipeline_response where
  "derived_response =
     \<lparr>resp_context = None,
      resp_deserialized = Inr [(''token_type'', JStr ''Bearer''), (''expires_on'', JStr ''9000''),
                              (''access_token'', JStr ''at-2'')],
      resp_http_request = client_credentials_request,
      resp_http_response = ''200''\<rparr>"

definition short_lived_response :: pipeline_response where
  "short_lived_response =
     \<lparr>resp_context = None,
      resp_deserialized = Inr [(''expires_in'', JInt 3600), (''access_token'', JStr ''at-3'')],
      resp_http_request = client_credentials_request,
      resp_http_response = ''200''\<rparr>"

definition zero_expires_in_response :: pipeline_response where
  "zero_expires_in_response =
     \<lparr>resp_context = None,
      resp_deserialized = Inr [(''expires_in'', JInt 0), (''expires_on'', JInt 11000),
                              (''access_token'', JStr ''at-4'')],
      resp_http_request = client_credentials_request,
      resp_http_response = ''200''\<rparr>"



definition cae_options :: call_options where
  \<comment> \<open>a call with \<open>enable_cae=True\<close>\<close>
  "cae_options = no_options\<lparr>kw_enable_cae := True\<rparr>"

section \<open>Predicates of the statements\<close>



text \<open>Reading an assertion back: its segments, the base64url decoder (the inverse of the
  encoder on padded text) and the parsed JSON of a segment.\<close>

fun index_of :: "'a \<Rightarrow> 'a list \<Rightarrow> nat" where
  "index_of x [] = 0"
| "index_of x (y # ys) = (if x = y then 0 else Suc (index_of x ys))"

definition b64_value :: "char \<Rightarrow> nat" where
  "b64_value c = index_of c b64_alphabet"

definition is_b64_char :: "char \<Rightarrow> bool" where
  "is_b64_char c = (c \<in> set b64_alphabet)"

definition octet1 :: "nat \<Rightarrow> nat \<Rightarrow> char" where
  "octet1 x y = char_of (x * 4 + y div 16)"

definition octet2 :: "nat \<Rightarrow> nat \<Rightarrow> char" where
  "octet2 y z = char_of ((y mod 16) * 16 + z div 4)"

definition octet3 :: "nat \<Rightarrow> nat \<Rightarrow> char" where
  "octet3 z w = char_of ((z mod 4) * 64 + w)"

fun urlsafe_b64decode :: "string \<Rightarrow> string option" where
  "urlsafe_b64decode [] = Some []"
| "urlsafe_b64decode (a # b # c # d # rest) =
     (if \<not> (is_b64_char a \<and> is_b64_char b) then None
      else if c = CHR ''='' then
        (if d = CHR ''='' \<and> rest = [] then Some [octet1 (b64_value a) (b64_value b)] else None)
      else if \<not> is_b64_char c then None
      else if d = CHR ''='' then
        (if rest = [] then
           Some [octet1 (b64_value a) (b64_value b), octet2 (b64_value b) (b64_value c)]
         else None)
      else if \<not> is_b64_char d then None
      else
        (case urlsafe_b64decode rest of
           None \<Rightarrow> None
         | Some bytes \<Rightarrow>
             Some (octet1 (b64_value a) (b64_value b) # octet2 (b64_value b) (b64_value c)
                   # octet3 (b64_value c) (b64_value d) # bytes)))"
| "urlsafe_b64decode _ = None"

fun split_on :: "char \<Rightarrow> string \<Rightarrow> string list" where
  "split_on sep [] = [[]]"
| "split_on sep (c # cs) =
     (case split_on sep cs of
        [] \<Rightarrow> [[c]]
      | p # ps \<Rightarrow> if c = sep then [] # p # ps else (c # p) # ps)"

definition decode_segment :: "(string \<Rightarrow> error + json) \<Rightarrow> string \<Rightarrow> error + json" where
  "decode_segment loads segment =
     (case urlsafe_b64decode segment of None \<Rightarrow> Inl DecodeError | Some bytes \<Rightarrow> loads bytes)"

text \<open>A segment in the padded form \<open>urlsafe_b64encode\<close> writes (alphabet characters, then
  at most two \<open>=\<close>, a multiple of four in all), and a compact JWT in the standard form:
  three segments of alphabet characters only, the padding left out.\<close>

definition base64url_padded :: "string \<Rightarrow> bool" where
  "base64url_padded s =
     (length s mod 4 = 0 \<and>
      list_all is_b64_char (takeWhile (\<lambda>c. c \<noteq> CHR ''='') s) \<and>
      dropWhile (\<lambda>c. c \<noteq> CHR ''='') s \<in> set [[], ''='', ''==''])"

definition compact_jwt :: "string \<Rightarrow> bool" where
  "compact_jwt jwt =
     (case split_on CHR ''.'' jwt of
        [header, payload, signature] \<Rightarrow> list_all is_b64_char (header @ payload @ signature)
      | _ \<Rightarrow> False)"

definition token_endpoint :: "string \<Rightarrow> string \<Rightarrow> string" where
  \<comment> \<open>\<open>{authority}/{tenant}/oauth2/v2.0/token\<close>\<close>
  "token_endpoint authority tenant = join ''/'' [authority, tenant, ''oauth2/v2.0/token'']"

text \<open>The computed \<open>expires_in\<close> as the specification words it: the literal \<open>expires_in\<close>,
  else \<open>expires_on - request_time\<close>.\<close>

definition literal_or_derived :: "int \<Rightarrow> int \<Rightarrow> dict \<Rightarrow> error + int" where
  "literal_or_derived request_time expires_on_v content =
     (case map_of content ''expires_in'' of
        Some literal \<Rightarrow> py_int literal
      | None \<Rightarrow> Inr (expires_on_v - request_time))"




section \<open>Dictionaries\<close>

lemma has_key_map_of: "has_key d k \<longleftrightarrow> map_of d k \<noteq> None"
  by (simp add: has_key_def map_of_eq_None_iff)

lemma has_key_update: "has_key (AList.update k v d) k' \<longleftrightarrow> k' = k \<or> has_key d k'"
  by (auto simp add: has_key_def dom_update)

lemma has_key_delete: "has_key (AList.delete k d) k' \<longleftrightarrow> k' \<noteq> k \<and> has_key d k'"
  by (auto simp add: has_key_map_of delete_conv')

lemma dict_get_has_key: "dict_get d k = JStr s \<Longrightarrow> has_key d k"
  by (auto simp add: dict_get_def has_key_map_of split: option.splits)

text \<open>The definitions that evaluate response processing at a concrete input.\<close>

lemmas sample_defs =
  refresh_request_def sample_client_def sample_cache_def no_options_def add_sample_def
  load_sample_def

lemmas process_response_defs =
  process_response_def decode_content_def get_cache_def active_cache_def put_cache_def
  update_refresh_tokens_def evict_invalid_grant_def rotate_refresh_token_def
  search_refresh_tokens_def remove_rt_def update_rt_def
  build_token_def raise_for_error_def scrub_secrets_def scrub_secret_def
  compute_expires_on_def compute_expires_in_def synthesize_refresh_in_def
  compute_refresh_on_def cache_event_def str_split_def is_space_def
  has_key_def dict_get_def dict_get_default_def dict_index_def

lemma loads_sample_values:
  "loads_sample ''{'' = Inl JSONDecodeError"
  "loads_sample ''{\"access_token\": 1}'' = Inr (JObj [(''access_token'', JInt 1)])"
  "loads_sample ''{\"id_token\": null, \"access_token\": {\"nbf\": null}}''
   = Inr (JObj [(''id_token'', JNull), (''access_token'', JObj [(''nbf'', JNull)])])"
  "loads_sample ''{\"typ\": \"JWT\", \"alg\": \"PS256\", \"x5t#S256\": \"c2hhMjU2\"}''
   = Inr (JObj [(''typ'', JStr ''JWT''), (''alg'', JStr ''PS256''), (''x5t#S256'', JStr ''c2hhMjU2'')])"
  "loads_sample ''{\"typ\": \"JWT\", \"alg\": \"RS256\", \"x5t\": \"c2hhMQ==\"}''
   = Inr (JObj [(''typ'', JStr ''JWT''), (''alg'', JStr ''RS256''), (''x5t'', JStr ''c2hhMQ=='')])"
  "loads_sample ''{\"jti\": \"jti-1\", \"aud\": \"https://login.microsoftonline.com/tenant/oauth2/v2.0/token\", \"iss\": \"client\", \"sub\": \"client\", \"nbf\": 1000, \"exp\": 2800}''
   = Inr (JObj [(''jti'', JStr ''jti-1''),
             (''aud'', JStr ''https://login.microsoftonline.com/tenant/oauth2/v2.0/token''),
             (''iss'', JStr ''client''), (''sub'', JStr ''client''),
             (''nbf'', JInt 1000), (''exp'', JInt 2800)])"
  "loads_sample ''{\"jti\": \"jti-1\", \"aud\": \"https://adfs.contoso.com/ADFS/oauth2/v2.0/token\", \"iss\": \"client\", \"sub\": \"client\", \"nbf\": 1000, \"exp\": 2800}''
   = Inr (JObj [(''jti'', JStr ''jti-1''),
             (''aud'', JStr ''https://adfs.contoso.com/ADFS/oauth2/v2.0/token''),
             (''iss'', JStr ''client''), (''sub'', JStr ''client''),
             (''nbf'', JInt 1000), (''exp'', JInt 2800)])"
  by (simp_all add: loads_sample_def sample_json_def)

lemma dumps_sample_values:
  "dumps_sample (JObj [(''typ'', JStr ''JWT''), (''alg'', JStr ''PS256''), (''x5t#S256'', JStr ''c2hhMjU2'')])
   = ''{\"typ\": \"JWT\", \"alg\": \"PS256\", \"x5t#S256\": \"c2hhMjU2\"}''"
  "dumps_sample (JObj [(''typ'', JStr ''JWT''), (''alg'', JStr ''RS256''), (''x5t'', JStr ''c2hhMQ=='')])
   = ''{\"typ\": \"JWT\", \"alg\": \"RS256\", \"x5t\": \"c2hhMQ==\"}''"
  "dumps_sample (JObj [(''jti'', JStr ''jti-1''),
             (''aud'', JStr ''https://login.microsoftonline.com/tenant/oauth2/v2.0/token''),
             (''iss'', JStr ''client''), (''sub'', JStr ''client''),
             (''nbf'', JInt 1000), (''exp'', JInt 2800)])
   = ''{\"jti\": \"jti-1\", \"aud\": \"https://login.microsoftonline.com/tenant/oauth2/v2.0/token\", \"iss\": \"client\", \"sub\": \"client\", \"nbf\": 1000, \"exp\": 2800}''"
  "dumps_sample (JObj [(''jti'', JStr ''jti-1''),
             (''aud'', JStr ''https://adfs.contoso.com/ADFS/oauth2/v2.0/token''),
             (''iss'', JStr ''client''), (''sub'', JStr ''client''),
             (''nbf'', JInt 1000), (''exp'', JInt 2800)])
   = ''{\"jti\": \"jti-1\", \"aud\": \"https://adfs.contoso.com/ADFS/oauth2/v2.0/token\", \"iss\": \"client\", \"sub\": \"client\", \"nbf\": 1000, \"exp\": 2800}''"
  by (simp_all add: dumps_sample_def sample_json_def)

section \<open>The builtins at concrete values\<close>

lemma py_int_values:
  "py_int (JStr '' 7_200 '') = Inr 7200"
  "py_int (JStr (CHR 0xA0 # ''7200'' @ [CHR 0x85])) = Inr 7200"
  "py_int (JStr (CHR 0x1C # ''7200'')) = Inl ValueError"
  "py_int (JStr ''-12'') = Inr (- 12)"
  "py_int (JStr ''7200.9'') = Inl ValueError"
  "py_int (JFloat (Finite_float 3958736640226099 (- 39))) = Inr 7200"
  "py_int (JFloat (Finite_float (- 3958736640226099) (- 39))) = Inr (- 7200)"
  "py_int (JFloat (Finite_float 225 5)) = Inr 7200"
  "py_int (JFloat Plus_infinity) = Inl OverflowError"
  "py_int (JFloat NaN) = Inl ValueError"
  by (simp_all add: int_of_str_def strip_def is_blank_def parse_unsigned_def is_digit_def
      digit_val_def float_trunc_def)

lemma split_values:
  "str_split (JStr ''scope-a  scope-b'') = Inr [''scope-a'', ''scope-b'']"
  "str_split (JStr (''a'' @ [CHR 0x1C] @ ''b'' @ [CHR 0xA0])) = Inr [''a'', ''b'']"
  by (simp_all add: str_split_def is_space_def)

lemma lower_values:
  "lower ''AdFs'' = ''adfs''"
  "lower [CHR 0xC4, CHR 0xD7, CHR 0xDF] = [CHR 0xE4, CHR 0xD7, CHR 0xDF]"
  by (simp_all add: lower_def lower_char_def)

lemma py_int_falsy: "\<not> truthy v \<Longrightarrow> py_int v = Inr n \<Longrightarrow> n = 0"
  by (cases v) (auto simp add: int_of_str_def strip_def float_trunc_def split: py_float.splits if_splits)

section \<open>The claims merge\<close>

lemma set_capabilities_mergeable:
  assumes "mergeable d"
  shows "\<exists>d' m'. set_capabilities capabilities (JObj d) = Inr d' \<and>
           map_of d' ''access_token'' = Some (JObj m') \<and>
           map_of m' ''xms_cc'' = Some (xms_cc capabilities) \<and>
           (\<forall>k. k \<noteq> ''access_token'' \<longrightarrow> map_of d' k = map_of d k) \<and>
           (\<forall>k. k \<noteq> ''xms_cc'' \<longrightarrow> map_of m' k = map_of (access_token_members d) k)"
proof (cases "map_of d ''access_token''")
  case None
  then show ?thesis
    by (simp add: set_capabilities_def access_token_members_def update_conv')
next
  case (Some v)
  with assms obtain m where v: "v = JObj m"
    by (cases v) (simp_all add: mergeable_def)
  with Some show ?thesis
    by (simp add: set_capabilities_def access_token_members_def update_conv')
qed

text \<open>
  C5 (as amended). With no capabilities the claims challenge is returned as it is, unparsed.
  With capabilities: an absent or empty claims challenge gives the serialisation of
  \<open>{"access_token": {"xms_cc": {"values": capabilities}}}\<close>; a non-empty one that parses
  to a dictionary whose \<open>access_token\<close> is absent or a dictionary gives the serialisation
  of a dictionary in which \<open>access_token.xms_cc\<close> is \<open>{"values": capabilities}\<close> and every
  other top-level key and every other member of \<open>access_token\<close> is as in the input; a
  parse error of a non-empty claims challenge propagates.
\<close>

theorem merge_claims_challenge_and_capabilities_spec:
  "merge_claims_challenge_and_capabilities loads dumps [] claims_challenge = Inr claims_challenge \<and>
   (capabilities \<noteq> [] \<longrightarrow> absent = None \<or> absent = Some [] \<longrightarrow>
      merge_claims_challenge_and_capabilities loads dumps capabilities absent
        = Inr (Some (dumps (JObj [(''access_token'',
                 JObj [(''xms_cc'', JObj [(''values'', JArr (map JStr capabilities))])])])))) \<and>
   (capabilities \<noteq> [] \<longrightarrow> s \<noteq> [] \<longrightarrow> loads s = Inr (JObj d) \<longrightarrow> mergeable d \<longrightarrow>
      (\<exists>d' m'. merge_claims_challenge_and_capabilities loads dumps capabilities (Some s)
                  = Inr (Some (dumps (JObj d'))) \<and>
         map_of d' ''access_token'' = Some (JObj m') \<and>
         map_of m' ''xms_cc'' = Some (JObj [(''values'', JArr (map JStr capabilities))]) \<and>
         (\<forall>k. k \<noteq> ''access_token'' \<longrightarrow> map_of d' k = map_of d k) \<and>
         (\<forall>k. k \<noteq> ''xms_cc'' \<longrightarrow> map_of m' k = map_of (access_token_members d) k))) \<and>
   (capabilities \<noteq> [] \<longrightarrow> malformed \<noteq> [] \<longrightarrow> loads malformed = Inl e \<longrightarrow>
      merge_claims_challenge_and_capabilities loads dumps capabilities (Some malformed) = Inl e)"
proof (intro conjI impI)
  show "merge_claims_challenge_and_capabilities loads dumps [] claims_challenge = Inr claims_challenge"
    by (simp add: merge_claims_challenge_and_capabilities_def)
next
  assume "capabilities \<noteq> []" "absent = None \<or> absent = Some []"
  then show "merge_claims_challenge_and_capabilities loads dumps capabilities absent
        = Inr (Some (dumps (JObj [(''access_token'',
                 JObj [(''xms_cc'', JObj [(''values'', JArr (map JStr capabilities))])])])))"
    by (auto simp add: merge_claims_challenge_and_capabilities_def parse_claims_def
        set_capabilities_def xms_cc_def)
next
  assume caps: "capabilities \<noteq> []" and s: "s \<noteq> []" and p: "loads s = Inr (JObj d)"
    and m: "mergeable d"
  from set_capabilities_mergeable [OF m, of capabilities]
  obtain d' m' where "set_capabilities capabilities (JObj d) = Inr d'"
    and "map_of d' ''access_token'' = Some (JObj m')"
    and "map_of m' ''xms_cc'' = Some (xms_cc capabilities)"
    and "\<forall>k. k \<noteq> ''access_token'' \<longrightarrow> map_of d' k = map_of d k"
    and "\<forall>k. k \<noteq> ''xms_cc'' \<longrightarrow> map_of m' k = map_of (access_token_members d) k"
    by blast
  with caps s p show "\<exists>d' m'. merge_claims_challenge_and_capabilities loads dumps capabilities (Some s)
                  = Inr (Some (dumps (JObj d'))) \<and>
         map_of d' ''access_token'' = Some (JObj m') \<and>
         map_of m' ''xms_cc'' = Some (JObj [(''values'', JArr (map JStr capabilities))]) \<and>
         (\<forall>k. k \<noteq> ''access_token'' \<longrightarrow> map_of d' k = map_of d k) \<and>
         (\<forall>k. k \<noteq> ''xms_cc'' \<longrightarrow> map_of m' k = map_of (access_token_members d) k)"
    by (intro exI [of _ d'] exI [of _ m'])
      (simp add: merge_claims_challenge_and_capabilities_def parse_claims_def xms_cc_def)
next
  assume "capabilities \<noteq> []" "malformed \<noteq> []" "loads malformed = Inl e"
  then show "merge_claims_challenge_and_capabilities loads dumps capabilities (Some malformed) = Inl e"
    by (simp add: merge_claims_challenge_and_capabilities_def parse_claims_def)
qed

theorem merge_claims_challenge_and_capabilities_witness:
  "merge_claims_challenge_and_capabilities loads_sample dumps_sample [] None = Inr None \<and>
   merge_claims_challenge_and_capabilities loads_sample dumps_sample [] (Some ''{'') = Inr (Some ''{'') \<and>
   merge_claims_challenge_and_capabilities loads_sample dumps_sample [''CP1''] None
     = Inr (Some ''{\"access_token\": {\"xms_cc\": {\"values\": [\"CP1\"]}}}'') \<and>
   merge_claims_challenge_and_capabilities loads_sample dumps_sample [''CP1''] (Some [])
     = Inr (Some ''{\"access_token\": {\"xms_cc\": {\"values\": [\"CP1\"]}}}'') \<and>
   (\<exists>d' m'. merge_claims_challenge_and_capabilities loads_sample dumps_sample [''CP1'']
                (Some ''{\"id_token\": null, \"access_token\": {\"nbf\": null}}'')
                  = Inr (Some (dumps_sample (JObj d'))) \<and>
         map_of d' ''access_token'' = Some (JObj m') \<and>
         map_of m' ''xms_cc'' = Some (JObj [(''values'', JArr (map JStr [''CP1'']))]) \<and>
         (\<forall>k. k \<noteq> ''access_token'' \<longrightarrow>
            map_of d' k = map_of [(''id_token'', JNull), (''access_token'', JObj [(''nbf'', JNull)])] k) \<and>
         (\<forall>k. k \<noteq> ''xms_cc'' \<longrightarrow> map_of m' k = map_of [(''nbf'', JNull)] k)) \<and>
   merge_claims_challenge_and_capabilities loads_sample dumps_sample [''CP1''] (Some ''{'')
     = Inl JSONDecodeError"
proof -
  let ?text = "''{\"id_token\": null, \"access_token\": {\"nbf\": null}}''"
  let ?d = "[(''id_token'', JNull), (''access_token'', JObj [(''nbf'', JNull)])]"
  note absent = merge_claims_challenge_and_capabilities_spec
    [where loads = loads_sample and dumps = dumps_sample and claims_challenge = None
       and capabilities = "[''CP1'']" and absent = None and s = ?text and d = ?d
       and malformed = "''{''" and e = JSONDecodeError]
  note empty = merge_claims_challenge_and_capabilities_spec
    [where loads = loads_sample and dumps = dumps_sample and claims_challenge = "Some ''{''"
       and capabilities = "[''CP1'']" and absent = "Some []" and s = ?text and d = ?d
       and malformed = "''{''" and e = JSONDecodeError]
  have l: "loads_sample ?text = Inr (JObj ?d)" "loads_sample ''{'' = Inl JSONDecodeError"
    by (simp_all add: loads_sample_values)
  have m: "mergeable ?d" "access_token_members ?d = [(''nbf'', JNull)]"
    by (simp_all add: mergeable_def access_token_members_def)
  have dumped: "dumps_sample (JObj [(''access_token'',
                   JObj [(''xms_cc'', JObj [(''values'', JArr (map JStr [''CP1'']))])])])
                = ''{\"access_token\": {\"xms_cc\": {\"values\": [\"CP1\"]}}}''"
    by (simp add: dumps_sample_def sample_json_def)
  from absent empty l m dumped show ?thesis by simp
qed

text \<open>
  C5 as stated fails: the claims challenge \<open>{"access_token": 1}\<close> is well-formed JSON, and
  with a capability the merge raises \<open>AttributeError\<close> (an integer has no \<open>update\<close>).
\<close>

theorem merge_fails_on_well_formed_claims:
  "merge_claims_challenge_and_capabilities loads_sample dumps_sample [''CP1'']
     (Some ''{\"access_token\": 1}'') = Inl AttributeError"
  by (simp add: merge_claims_challenge_and_capabilities_def parse_claims_def
      loads_sample_values set_capabilities_def)

section \<open>Eviction and rotation of refresh tokens\<close>

lemma refresh_tokens_fold_remove_rt:
  "refresh_tokens (fold remove_rt es c) = filter (\<lambda>e. e \<notin> set es) (refresh_tokens c)"
proof (induction es arbitrary: c)
  case Nil
  then show ?case by simp
next
  case (Cons x xs)
  have "filter (\<lambda>e. e \<notin> set xs) (removeAll x (refresh_tokens c))
        = filter (\<lambda>e. e \<notin> set (x # xs)) (refresh_tokens c)"
    by (auto simp add: removeAll_filter_not_eq intro: filter_cong)
  with Cons show ?case by (simp add: remove_rt_def)
qed

lemma refresh_tokens_evicted:
  "refresh_tokens (fold remove_rt (search_refresh_tokens c secret) c)
   = filter (\<lambda>e. map_of e ''secret'' \<noteq> Some secret) (refresh_tokens c)"
  by (simp add: refresh_tokens_fold_remove_rt search_refresh_tokens_def cong: filter_cong)

lemma search_evicted:
  "search_refresh_tokens (fold remove_rt (search_refresh_tokens c secret) c) secret = []"
  by (simp add: search_refresh_tokens_def [of "fold _ _ _"] refresh_tokens_evicted filter_empty_conv)

lemma get_cache_active:
  "active_cache self kwargs = Some cache \<Longrightarrow> get_cache load self kwargs = Inr (cache, self)"
  by (simp add: get_cache_def)

lemma active_cache_put_cache: "active_cache (put_cache self kwargs c) kwargs = Some c"
  by (simp add: active_cache_def put_cache_def)

lemma update_refresh_tokens_invalid_grant:
  assumes "dict_get body ''grant_type'' = JStr ''refresh_token''"
    and "map_of body ''refresh_token'' = Some secret"
    and "dict_get content ''error'' = JStr ''invalid_grant''"
  shows "update_refresh_tokens cache body content
         = (Inr content, fold remove_rt (search_refresh_tokens cache secret) cache)"
  using assms
  by (simp add: update_refresh_tokens_def evict_invalid_grant_def rotate_refresh_token_def
      dict_index_def search_evicted)

lemma raise_for_error_raises:
  "has_key content ''error'' \<Longrightarrow>
   \<exists>m. raise_for_error http content = Inl (ClientAuthenticationError m (Some http))"
  by (simp add: raise_for_error_def Let_def)

text \<open>
  C2. A response to a refresh-token grant whose content has \<open>error\<close> equal to
  \<open>invalid_grant\<close>: processing ends in an authentication error, and the refresh-token
  entries of the cache afterwards are the earlier ones whose secret is not the request's
  refresh token, so no entry with that secret is left.
\<close>

theorem invalid_grant_evicts_refresh_tokens:
  assumes "decode_content response = Inr content"
    and "active_cache self kwargs = Some cache"
    and "dict_get (req_body (resp_http_request response)) ''grant_type'' = JStr ''refresh_token''"
    and "map_of (req_body (resp_http_request response)) ''refresh_token'' = Some secret"
    and "dict_get content ''error'' = JStr ''invalid_grant''"
  shows "\<exists>m self' cache'.
           process_response add load self response request_time kwargs
             = (Inl (ClientAuthenticationError m (Some (resp_http_response response))), self') \<and>
           active_cache self' kwargs = Some cache' \<and>
           refresh_tokens cache'
             = filter (\<lambda>e. map_of e ''secret'' \<noteq> Some secret) (refresh_tokens cache) \<and>
           (\<forall>e \<in> set (refresh_tokens cache'). map_of e ''secret'' \<noteq> Some secret)"
proof -
  let ?cache' = "fold remove_rt (search_refresh_tokens cache secret) cache"
  from assms(5) have "has_key content ''error''" by (rule dict_get_has_key)
  then obtain m where
    m: "raise_for_error (resp_http_response response) content
        = Inl (ClientAuthenticationError m (Some (resp_http_response response)))"
    using raise_for_error_raises by blast
  have "process_response add load self response request_time kwargs
        = (Inl (ClientAuthenticationError m (Some (resp_http_response response))),
           put_cache self kwargs ?cache')"
    by (simp add: process_response_def assms(1) get_cache_active [OF assms(2)]
        update_refresh_tokens_invalid_grant [OF assms(3,4,5)] build_token_def m)
  moreover have "active_cache (put_cache self kwargs ?cache') kwargs = Some ?cache'"
    by (rule active_cache_put_cache)
  moreover have "refresh_tokens ?cache'
      = filter (\<lambda>e. map_of e ''secret'' \<noteq> Some secret) (refresh_tokens cache)"
    by (rule refresh_tokens_evicted)
  ultimately show ?thesis by auto
qed

theorem invalid_grant_evicts_refresh_tokens_witness:
  "process_response add_sample load_sample sample_client invalid_grant_response 1000 no_options
     = (Inl (ClientAuthenticationError
               (Entra_error_described (JStr ''invalid_grant'') (JStr ''the refresh token expired''))
               (Some ''400'')),
        sample_client\<lparr>self_cache := Some (sample_cache\<lparr>refresh_tokens :=
          [[(''secret'', JStr ''other-rt''), (''client_id'', JStr ''client'')]]\<rparr>)\<rparr>) \<and>
   (\<exists>m self' cache'.
      process_response add_sample load_sample sample_client invalid_grant_response 1000 no_options
        = (Inl (ClientAuthenticationError m (Some (resp_http_response invalid_grant_response))), self') \<and>
      active_cache self' no_options = Some cache' \<and>
      refresh_tokens cache'
        = filter (\<lambda>e. map_of e ''secret'' \<noteq> Some (JStr ''old-rt'')) (refresh_tokens sample_cache) \<and>
      (\<forall>e \<in> set (refresh_tokens cache'). map_of e ''secret'' \<noteq> Some (JStr ''old-rt'')))"
proof
  show "\<exists>m self' cache'.
      process_response add_sample load_sample sample_client invalid_grant_response 1000 no_options
        = (Inl (ClientAuthenticationError m (Some (resp_http_response invalid_grant_response))), self') \<and>
      active_cache self' no_options = Some cache' \<and>
      refresh_tokens cache'
        = filter (\<lambda>e. map_of e ''secret'' \<noteq> Some (JStr ''old-rt'')) (refresh_tokens sample_cache) \<and>
      (\<forall>e \<in> set (refresh_tokens cache'). map_of e ''secret'' \<noteq> Some (JStr ''old-rt''))"
    by (rule invalid_grant_evicts_refresh_tokens
          [where content = "[(''error'', JStr ''invalid_grant''),
                             (''error_description'', JStr ''the refresh token expired'')]"])
      (simp_all add: decode_content_def invalid_grant_response_def refresh_request_def
        active_cache_def sample_client_def no_options_def dict_get_def)
  show "process_response add_sample load_sample sample_client invalid_grant_response 1000 no_options
     = (Inl (ClientAuthenticationError
               (Entra_error_described (JStr ''invalid_grant'') (JStr ''the refresh token expired''))
               (Some ''400'')),
        sample_client\<lparr>self_cache := Some (sample_cache\<lparr>refresh_tokens :=
          [[(''secret'', JStr ''other-rt''), (''client_id'', JStr ''client'')]]\<rparr>)\<rparr>)"
    by (simp add: process_response_def decode_content_def invalid_grant_response_def
        refresh_request_def get_cache_def active_cache_def sample_client_def no_options_def
        update_refresh_tokens_def evict_invalid_grant_def rotate_refresh_token_def
        dict_get_def dict_index_def search_refresh_tokens_def sample_cache_def remove_rt_def
        has_key_def build_token_def raise_for_error_def scrub_secrets_def scrub_secret_def
        put_cache_def)
qed

section \<open>The shape of response processing\<close>

lemma process_response_after_update:
  assumes "decode_content response = Inr content"
    and "get_cache load self kwargs = Inr (cache, self1)"
    and "update_refresh_tokens cache (req_body (resp_http_request response)) content
         = (Inr content1, cache1)"
  shows "process_response add load self response request_time kwargs =
     (case build_token (resp_http_response response) request_time content1 of
        Inl e \<Rightarrow> (Inl e, put_cache self1 kwargs cache1)
      | Inr (token_v, content2) \<Rightarrow>
          (case cache_event self1 (resp_http_request response) content2 of
             Inl e \<Rightarrow> (Inl e, put_cache self1 kwargs cache1)
           | Inr event \<Rightarrow> (Inr token_v, put_cache self1 kwargs (add event request_time cache1))))"
  using assms by (simp add: process_response_def)

lemma cache_event_response:
  "cache_event self request content = Inr event \<Longrightarrow> ev_response event = content"
  by (auto simp add: cache_event_def split: sum.splits)

lemma build_token_content:
  assumes "build_token http request_time content = Inr (tok, content2)"
  shows "\<exists>n. content2 = synthesize_refresh_in n content"
  using assms by (auto simp add: build_token_def Let_def split: sum.splits)

lemma has_key_synthesize_refresh_in:
  "k \<noteq> ''refresh_in'' \<Longrightarrow> has_key (synthesize_refresh_in n content) k = has_key content k"
  by (simp add: synthesize_refresh_in_def has_key_update)

lemma map_of_synthesize_refresh_in:
  "k \<noteq> ''refresh_in'' \<Longrightarrow> map_of (synthesize_refresh_in n content) k = map_of content k"
  by (simp add: synthesize_refresh_in_def update_conv')

lemma process_response_outcomes:
  assumes "decode_content response = Inr content"
    and "get_cache load self kwargs = Inr (cache, self1)"
    and "update_refresh_tokens cache (req_body (resp_http_request response)) content
         = (Inr content1, cache1)"
    and "k \<noteq> ''refresh_in''"
  shows "(\<exists>e. process_response add load self response request_time kwargs
               = (Inl e, put_cache self1 kwargs cache1)) \<or>
         (\<exists>tok event. process_response add load self response request_time kwargs
               = (Inr tok, put_cache self1 kwargs (add event request_time cache1)) \<and>
            map_of (ev_response event) k = map_of content1 k)"
proof (cases "build_token (resp_http_response response) request_time content1")
  case (Inl e)
  then show ?thesis
    by (simp add: process_response_after_update [OF assms(1,2,3)])
next
  case (Inr r)
  obtain tok content2 where r: "r = (tok, content2)" by (cases r)
  from Inr r build_token_content obtain n where c2: "content2 = synthesize_refresh_in n content1"
    by blast
  show ?thesis
  proof (cases "cache_event self1 (resp_http_request response) content2")
    case (Inl e)
    with Inr r show ?thesis
      by (simp add: process_response_after_update [OF assms(1,2,3)])
  next
    case ev: (Inr event)
    then have "ev_response event = content2" by (rule cache_event_response)
    with c2 assms(4) have "map_of (ev_response event) k = map_of content1 k"
      by (simp add: map_of_synthesize_refresh_in)
    with Inr r ev show ?thesis
      by (auto simp add: process_response_after_update [OF assms(1,2,3)])
  qed
qed

lemma update_refresh_tokens_content:
  assumes "update_refresh_tokens cache body content = (Inr content1, cache1)"
  shows "content1 = content \<or> content1 = AList.delete ''refresh_token'' content"
  using assms
  by (auto simp add: update_refresh_tokens_def rotate_refresh_token_def
      split: if_splits sum.splits list.splits)

lemma update_refresh_tokens_map_of:
  assumes "update_refresh_tokens cache body content = (Inr content1, cache1)"
    and "k \<noteq> ''refresh_token''"
  shows "map_of content1 k = map_of content k"
  using update_refresh_tokens_content [OF assms(1)] assms(2)
  by (auto simp add: delete_conv')

lemma build_token_Inr:
  assumes "build_token http request_time content = Inr (tok, content2)"
  shows "\<exists>n. \<not> has_key content ''error'' \<and>
           compute_expires_on request_time content = Inr (expires_on tok) \<and>
           compute_expires_in request_time (expires_on tok) content = Inr n \<and>
           content2 = synthesize_refresh_in n content \<and>
           compute_refresh_on request_time content2 = Inr (refresh_on tok) \<and>
           map_of content2 ''access_token'' = Some (token tok) \<and>
           token_type tok = dict_get_default content2 ''token_type'' (JStr ''Bearer'')"
proof -
  from assms have ne: "\<not> has_key content ''error''"
    by (auto simp add: build_token_def raise_for_error_def Let_def split: if_splits)
  then have r: "raise_for_error http content = Inr ()"
    by (simp add: raise_for_error_def)
  from assms r obtain eo where eo: "compute_expires_on request_time content = Inr eo"
    by (cases "compute_expires_on request_time content") (simp_all add: build_token_def)
  from assms r eo obtain n where n: "compute_expires_in request_time eo content = Inr n"
    by (cases "compute_expires_in request_time eo content") (simp_all add: build_token_def)
  let ?c = "synthesize_refresh_in n content"
  from assms r eo n obtain ro where ro: "compute_refresh_on request_time ?c = Inr ro"
    by (cases "compute_refresh_on request_time ?c") (simp_all add: build_token_def)
  from assms r eo n ro obtain at where at: "dict_index ?c ''access_token'' = Inr at"
    by (cases "dict_index ?c ''access_token''") (simp_all add: build_token_def)
  from assms r eo n ro at have
    tok: "tok = \<lparr>token = at, expires_on = eo,
                 token_type = dict_get_default ?c ''token_type'' (JStr ''Bearer''),
                 refresh_on = ro\<rparr>" and c2: "content2 = ?c"
    by (auto simp add: build_token_def Let_def)
  from at have "map_of ?c ''access_token'' = Some at"
    by (simp add: dict_index_def split: option.splits)
  with ne eo n ro tok c2 show ?thesis by auto
qed

lemma process_response_Inr:
  assumes "process_response add load self response request_time kwargs = (Inr tok, self')"
    and "decode_content response = Inr content"
  shows "\<exists>cache self1 content1 cache1 content2 event.
           get_cache load self kwargs = Inr (cache, self1) \<and>
           update_refresh_tokens cache (req_body (resp_http_request response)) content
             = (Inr content1, cache1) \<and>
           build_token (resp_http_response response) request_time content1 = Inr (tok, content2) \<and>
           cache_event self1 (resp_http_request response) content2 = Inr event \<and>
           self' = put_cache self1 kwargs (add event request_time cache1)"
proof -
  from assms obtain cache self1 where g: "get_cache load self kwargs = Inr (cache, self1)"
    by (cases "get_cache load self kwargs") (auto simp add: process_response_def)
  obtain r cache1 where u: "update_refresh_tokens cache (req_body (resp_http_request response)) content
      = (r, cache1)"
    by (cases "update_refresh_tokens cache (req_body (resp_http_request response)) content")
  from assms g u obtain content1 where r: "r = Inr content1"
    by (cases r) (auto simp add: process_response_def)
  note after = process_response_after_update [OF assms(2) g u [unfolded r],
      where add = add and request_time = request_time]
  from assms(1) after obtain t2 content2 where
    b: "build_token (resp_http_response response) request_time content1 = Inr (t2, content2)"
    by (cases "build_token (resp_http_response response) request_time content1") auto
  from assms(1) after b obtain event where
    e: "cache_event self1 (resp_http_request response) content2 = Inr event"
    by (cases "cache_event self1 (resp_http_request response) content2") auto
  from assms(1) after b e have "t2 = tok" "self' = put_cache self1 kwargs (add event request_time cache1)"
    by auto
  with g u r b e show ?thesis by auto
qed

lemma filter_singleton:
  assumes "filter P xs = [y]" and "x \<in> set xs"
  shows "P x \<longleftrightarrow> x = y"
proof
  assume "P x"
  with assms(2) have "x \<in> set (filter P xs)" by simp
  with assms(1) show "x = y" by simp
next
  assume "x = y"
  moreover from assms(1) have "y \<in> set (filter P xs)" by simp
  ultimately show "P x" by simp
qed

lemma refresh_tokens_update_rt_single:
  assumes "search_refresh_tokens cache old = [entry]"
  shows "refresh_tokens (update_rt entry new cache)
         = map (\<lambda>e. if map_of e ''secret'' = Some old then AList.update ''secret'' new e else e)
             (refresh_tokens cache)"
proof -
  have "\<forall>e \<in> set (refresh_tokens cache). (map_of e ''secret'' = Some old) \<longleftrightarrow> e = entry"
  proof
    fix e
    assume "e \<in> set (refresh_tokens cache)"
    with assms show "(map_of e ''secret'' = Some old) \<longleftrightarrow> e = entry"
      unfolding search_refresh_tokens_def by (rule filter_singleton)
  qed
  then have "map (\<lambda>e. if e = entry then AList.update ''secret'' new e else e) (refresh_tokens cache)
      = map (\<lambda>e. if map_of e ''secret'' = Some old then AList.update ''secret'' new e else e)
          (refresh_tokens cache)"
    by (intro map_cong refl) auto
  then show ?thesis
    by (simp add: update_rt_def)
qed

lemma update_refresh_tokens_rotated:
  assumes "dict_get body ''grant_type'' = JStr ''refresh_token''"
    and "map_of body ''refresh_token'' = Some old"
    and "map_of content ''refresh_token'' = Some new"
    and "dict_get content ''error'' \<noteq> JStr ''invalid_grant''"
  shows "update_refresh_tokens cache body content =
     (case search_refresh_tokens cache old of
        [entry] \<Rightarrow> (Inr (AList.delete ''refresh_token'' content), update_rt entry new cache)
      | _ \<Rightarrow> (Inr content, cache))"
  using assms
  by (simp add: update_refresh_tokens_def evict_invalid_grant_def rotate_refresh_token_def
      dict_index_def has_key_map_of dict_get_def
      split: list.splits)

text \<open>
  C1 (as amended). A response to a refresh-token grant whose content contains a new
  \<open>refresh_token\<close> and whose \<open>error\<close> is not \<open>invalid_grant\<close>. If the search by the old
  secret finds exactly one entry, the cache that reaches the end of processing (and the
  cache-write step, when there is one) has the new secret in the entries that had the old
  one and is otherwise unchanged, and the content given to the cache-write step has no
  \<open>refresh_token\<close> key. If the search finds no entry or more than one, that cache is the
  unchanged cache, and the content given to the cache-write step still has the new token.
\<close>

theorem refresh_token_rotation:
  assumes "decode_content response = Inr content"
    and "active_cache self kwargs = Some cache"
    and "dict_get (req_body (resp_http_request response)) ''grant_type'' = JStr ''refresh_token''"
    and "map_of (req_body (resp_http_request response)) ''refresh_token'' = Some old"
    and "map_of content ''refresh_token'' = Some new"
    and "dict_get content ''error'' \<noteq> JStr ''invalid_grant''"
  shows "(search_refresh_tokens cache old = [entry] \<longrightarrow>
           (\<exists>cache1.
              refresh_tokens cache1
                = map (\<lambda>e. if map_of e ''secret'' = Some old then AList.update ''secret'' new e else e)
                    (refresh_tokens cache) \<and>
              access_tokens cache1 = access_tokens cache \<and>
              ((\<exists>e. process_response add load self response request_time kwargs
                      = (Inl e, put_cache self kwargs cache1)) \<or>
               (\<exists>tok event. process_response add load self response request_time kwargs
                      = (Inr tok, put_cache self kwargs (add event request_time cache1)) \<and>
                  \<not> has_key (ev_response event) ''refresh_token'')))) \<and>
         (length (search_refresh_tokens cache old) \<noteq> 1 \<longrightarrow>
           ((\<exists>e. process_response add load self response request_time kwargs
                   = (Inl e, put_cache self kwargs cache)) \<or>
            (\<exists>tok event. process_response add load self response request_time kwargs
                   = (Inr tok, put_cache self kwargs (add event request_time cache)) \<and>
               map_of (ev_response event) ''refresh_token'' = Some new)))"
proof (intro conjI impI)
  assume one: "search_refresh_tokens cache old = [entry]"
  let ?cache1 = "update_rt entry new cache"
  let ?content1 = "AList.delete ''refresh_token'' content"
  have upd: "update_refresh_tokens cache (req_body (resp_http_request response)) content
             = (Inr ?content1, ?cache1)"
    using one by (simp add: update_refresh_tokens_rotated [OF assms(3,4,5,6)])
  have absent: "map_of ?content1 ''refresh_token'' = None"
    by (simp add: delete_conv')
  from process_response_outcomes [OF assms(1) get_cache_active [OF assms(2)] upd, where add = add and request_time = request_time and load = load and k = "''refresh_token''"]
  have "(\<exists>e. process_response add load self response request_time kwargs
               = (Inl e, put_cache self kwargs ?cache1)) \<or>
        (\<exists>tok event. process_response add load self response request_time kwargs
               = (Inr tok, put_cache self kwargs (add event request_time ?cache1)) \<and>
            \<not> has_key (ev_response event) ''refresh_token'')"
    using absent by (auto simp add: has_key_map_of)
  moreover have "refresh_tokens ?cache1
      = map (\<lambda>e. if map_of e ''secret'' = Some old then AList.update ''secret'' new e else e)
          (refresh_tokens cache)"
    using one by (rule refresh_tokens_update_rt_single)
  moreover have "access_tokens ?cache1 = access_tokens cache"
    by (simp add: update_rt_def)
  ultimately show "\<exists>cache1.
              refresh_tokens cache1
                = map (\<lambda>e. if map_of e ''secret'' = Some old then AList.update ''secret'' new e else e)
                    (refresh_tokens cache) \<and>
              access_tokens cache1 = access_tokens cache \<and>
              ((\<exists>e. process_response add load self response request_time kwargs
                      = (Inl e, put_cache self kwargs cache1)) \<or>
               (\<exists>tok event. process_response add load self response request_time kwargs
                      = (Inr tok, put_cache self kwargs (add event request_time cache1)) \<and>
                  \<not> has_key (ev_response event) ''refresh_token''))"
    by blast
next
  assume many: "length (search_refresh_tokens cache old) \<noteq> 1"
  have upd: "update_refresh_tokens cache (req_body (resp_http_request response)) content
             = (Inr content, cache)"
    using many
    by (cases "search_refresh_tokens cache old")
      (simp_all add: update_refresh_tokens_rotated [OF assms(3,4,5,6)] split: list.splits)
  from process_response_outcomes [OF assms(1) get_cache_active [OF assms(2)] upd, where add = add and request_time = request_time and load = load and k = "''refresh_token''"]
  show "(\<exists>e. process_response add load self response request_time kwargs
                   = (Inl e, put_cache self kwargs cache)) \<or>
            (\<exists>tok event. process_response add load self response request_time kwargs
                   = (Inr tok, put_cache self kwargs (add event request_time cache)) \<and>
               map_of (ev_response event) ''refresh_token'' = Some new)"
    using assms(5) by auto
qed

theorem refresh_token_rotation_witness:
  "(\<exists>cache1.
      refresh_tokens cache1
        = map (\<lambda>e. if map_of e ''secret'' = Some (JStr ''old-rt'')
                    then AList.update ''secret'' (JStr ''new-rt'') e else e)
            (refresh_tokens sample_cache) \<and>
      access_tokens cache1 = access_tokens sample_cache \<and>
      ((\<exists>e. process_response add_sample load_sample sample_client token_response 1000 no_options
              = (Inl e, put_cache sample_client no_options cache1)) \<or>
       (\<exists>tok event.
          process_response add_sample load_sample sample_client token_response 1000 no_options
              = (Inr tok, put_cache sample_client no_options (add_sample event 1000 cache1)) \<and>
          \<not> has_key (ev_response event) ''refresh_token''))) \<and>
   ((\<exists>e. process_response add_sample load_sample
            (sample_client\<lparr>self_cache := Some ambiguous_cache\<rparr>) token_response 1000 no_options
          = (Inl e, put_cache (sample_client\<lparr>self_cache := Some ambiguous_cache\<rparr>) no_options
                      ambiguous_cache)) \<or>
    (\<exists>tok event. process_response add_sample load_sample
            (sample_client\<lparr>self_cache := Some ambiguous_cache\<rparr>) token_response 1000 no_options
          = (Inr tok, put_cache (sample_client\<lparr>self_cache := Some ambiguous_cache\<rparr>) no_options
                        (add_sample event 1000 ambiguous_cache)) \<and>
        map_of (ev_response event) ''refresh_token'' = Some (JStr ''new-rt'')))"
proof (rule conjI)
  let ?content = "[(''token_type'', JStr ''Bearer''), (''expires_in'', JInt 7200),
                   (''access_token'', JStr ''at-1''), (''refresh_token'', JStr ''new-rt'')]"
  have d: "decode_content token_response = Inr ?content"
    by (simp add: decode_content_def token_response_def)
  have g: "dict_get (req_body (resp_http_request token_response)) ''grant_type'' = JStr ''refresh_token''"
    by (simp add: token_response_def refresh_request_def dict_get_def)
  have b: "map_of (req_body (resp_http_request token_response)) ''refresh_token'' = Some (JStr ''old-rt'')"
    by (simp add: token_response_def refresh_request_def)
  have n: "map_of ?content ''refresh_token'' = Some (JStr ''new-rt'')"
    by simp
  have e: "dict_get ?content ''error'' \<noteq> JStr ''invalid_grant''"
    by (simp add: dict_get_def)
  have a1: "active_cache sample_client no_options = Some sample_cache"
    by (simp add: active_cache_def sample_client_def no_options_def)
  have a2: "active_cache (sample_client\<lparr>self_cache := Some ambiguous_cache\<rparr>) no_options
            = Some ambiguous_cache"
    by (simp add: active_cache_def no_options_def)
  have one: "search_refresh_tokens sample_cache (JStr ''old-rt'')
             = [[(''secret'', JStr ''old-rt''), (''client_id'', JStr ''client'')]]"
    by (simp add: search_refresh_tokens_def sample_cache_def)
  have two: "length (search_refresh_tokens ambiguous_cache (JStr ''old-rt'')) \<noteq> 1"
    by (simp add: search_refresh_tokens_def ambiguous_cache_def)
  show "\<exists>cache1.
      refresh_tokens cache1
        = map (\<lambda>e. if map_of e ''secret'' = Some (JStr ''old-rt'')
                    then AList.update ''secret'' (JStr ''new-rt'') e else e)
            (refresh_tokens sample_cache) \<and>
      access_tokens cache1 = access_tokens sample_cache \<and>
      ((\<exists>e. process_response add_sample load_sample sample_client token_response 1000 no_options
              = (Inl e, put_cache sample_client no_options cache1)) \<or>
       (\<exists>tok event.
          process_response add_sample load_sample sample_client token_response 1000 no_options
              = (Inr tok, put_cache sample_client no_options (add_sample event 1000 cache1)) \<and>
          \<not> has_key (ev_response event) ''refresh_token''))"
    by (rule refresh_token_rotation [OF d a1 g b n e, THEN conjunct1, THEN mp, OF one])
  show "(\<exists>e. process_response add_sample load_sample
            (sample_client\<lparr>self_cache := Some ambiguous_cache\<rparr>) token_response 1000 no_options
          = (Inl e, put_cache (sample_client\<lparr>self_cache := Some ambiguous_cache\<rparr>) no_options
                      ambiguous_cache)) \<or>
    (\<exists>tok event. process_response add_sample load_sample
            (sample_client\<lparr>self_cache := Some ambiguous_cache\<rparr>) token_response 1000 no_options
          = (Inr tok, put_cache (sample_client\<lparr>self_cache := Some ambiguous_cache\<rparr>) no_options
                        (add_sample event 1000 ambiguous_cache)) \<and>
        map_of (ev_response event) ''refresh_token'' = Some (JStr ''new-rt''))"
    by (rule refresh_token_rotation [OF d a2 g b n e, THEN conjunct2, THEN mp, OF two])
qed

text \<open>
  C1 as stated fails on a response that holds both \<open>error = invalid_grant\<close> and a new
  \<open>refresh_token\<close>: exactly one cached entry has the old secret, and it is evicted, not
  updated.
\<close>

theorem rotation_skipped_after_eviction:
  "search_refresh_tokens sample_cache (JStr ''old-rt'')
     = [[(''secret'', JStr ''old-rt''), (''client_id'', JStr ''client'')]] \<and>
   decode_content invalid_grant_with_token_response
     = Inr [(''error'', JStr ''invalid_grant''), (''refresh_token'', JStr ''new-rt'')] \<and>
   process_response add_sample load_sample sample_client invalid_grant_with_token_response 1000
       no_options
     = (Inl (ClientAuthenticationError
               (Entra_error [(''error'', JStr ''invalid_grant''), (''refresh_token'', JStr ''***'')])
               (Some ''400'')),
        sample_client\<lparr>self_cache := Some
          \<lparr>access_tokens = [],
           refresh_tokens = [[(''secret'', JStr ''other-rt''), (''client_id'', JStr ''client'')]]\<rparr>\<rparr>)"
  by (simp add: invalid_grant_with_token_response_def sample_defs process_response_defs)

section \<open>The synthesized \<open>refresh_in\<close>\<close>

lemma dict_get_cong: "map_of c1 k = map_of c k \<Longrightarrow> dict_get c1 k = dict_get c k"
  by (simp add: dict_get_def)

lemma has_key_cong: "map_of c1 k = map_of c k \<Longrightarrow> has_key c1 k = has_key c k"
  by (simp add: has_key_map_of)

lemma compute_refresh_on_synthesized:
  assumes "\<not> has_key content ''refresh_in''"
  shows "compute_refresh_on request_time (synthesize_refresh_in n content)
         = Inr (if n \<ge> 7200 then Some (request_time + n div 2) else None)"
  using assms
  by (simp add: compute_refresh_on_def synthesize_refresh_in_def has_key_update dict_get_def
      update_conv')

lemma map_of_refresh_in_synthesized:
  assumes "\<not> has_key content ''refresh_in''"
  shows "map_of (synthesize_refresh_in n content) ''refresh_in''
         = (if n \<ge> 7200 then Some (JInt (n div 2)) else None)"
  using assms
  by (simp add: synthesize_refresh_in_def has_key_map_of update_conv')

lemma compute_expires_in_Inr:
  assumes "compute_expires_in request_time eo content = Inr n"
  shows "case map_of content ''expires_in'' of
           None \<Rightarrow> n = eo - request_time
         | Some literal \<Rightarrow> if truthy literal then py_int literal = Inr n else n = eo - request_time"
  using assms by (auto simp add: compute_expires_in_def dict_get_def split: option.splits if_splits)

lemma compute_expires_on_Inr:
  assumes "compute_expires_on request_time content = Inr eo"
  shows "case map_of content ''expires_on'' of
           Some v \<Rightarrow> py_int v = Inr eo
         | None \<Rightarrow> (\<exists>literal n. map_of content ''expires_in'' = Some literal \<and>
                       py_int literal = Inr n \<and> eo = request_time + n)"
  using assms
  by (auto simp add: compute_expires_on_def dict_get_def has_key_map_of
      split: option.splits if_splits sum.splits)

lemma literal_or_derived_long:
  assumes "case map_of content ''expires_in'' of
           None \<Rightarrow> n = eo - request_time
         | Some literal \<Rightarrow> if truthy literal then py_int literal = Inr n else n = eo - request_time"
    and "literal_or_derived request_time eo content = Inr e" and "e \<ge> 7200"
  shows "e = n"
proof (cases "map_of content ''expires_in''")
  case None
  with assms show ?thesis by (simp add: literal_or_derived_def)
next
  case (Some literal)
  with assms(2) have l: "py_int literal = Inr e" by (simp add: literal_or_derived_def)
  show ?thesis
  proof (cases "truthy literal")
    case True
    with Some assms(1) l show ?thesis by simp
  next
    case False
    from py_int_falsy [OF False l] assms(3) show ?thesis by simp
  qed
qed

text \<open>
  C6. When processing returns a token for a content without \<open>refresh_in\<close>: if the computed
  \<open>expires_in\<close> as the specification words it (the literal \<open>expires_in\<close>, else
  \<open>expires_on - request_time\<close>) is at least 7200, the token's \<open>refresh_on\<close> is
  \<open>request_time + expires_in // 2\<close> and the content given to the cache has
  \<open>refresh_in = expires_in // 2\<close>; with a literal \<open>expires_in\<close> of 7200 the token's
  \<open>refresh_on\<close> is \<open>request_time + 3600\<close>; and when the content given to the cache has no
  \<open>refresh_in\<close>, \<open>refresh_on\<close> is none.

  The statement also gives the two computed values in full. \<open>expires_on\<close> is the integer of
  the literal \<open>expires_on\<close>, else \<open>request_time\<close> plus the integer of the literal
  \<open>expires_in\<close>. \<open>expires_in\<close> is the integer of the literal \<open>expires_in\<close> when that is
  truthy, else \<open>expires_on - request_time\<close>: a literal of zero counts as absent, which is
  below 7200 in the specification's wording and so outside what it promises. \<open>refresh_on\<close>
  and the cached \<open>refresh_in\<close> are there exactly when this \<open>expires_in\<close> is at least 7200.
\<close>

theorem refresh_in_synthesized:
  assumes "process_response add load self response request_time kwargs = (Inr tok, self')"
    and "decode_content response = Inr content"
    and "\<not> has_key content ''refresh_in''"
  shows "\<exists>expires_in self1 event cache1.
           self' = put_cache self1 kwargs (add event request_time cache1) \<and>
           (case map_of content ''expires_on'' of
              Some v \<Rightarrow> py_int v = Inr (expires_on tok)
            | None \<Rightarrow> (\<exists>literal n. map_of content ''expires_in'' = Some literal \<and>
                          py_int literal = Inr n \<and> expires_on tok = request_time + n)) \<and>
           (case map_of content ''expires_in'' of
              None \<Rightarrow> expires_in = expires_on tok - request_time
            | Some literal \<Rightarrow>
                if truthy literal then py_int literal = Inr expires_in
                else expires_in = expires_on tok - request_time) \<and>
           refresh_on tok = (if expires_in \<ge> 7200 then Some (request_time + expires_in div 2) else None) \<and>
           map_of (ev_response event) ''refresh_in''
             = (if expires_in \<ge> 7200 then Some (JInt (expires_in div 2)) else None) \<and>
           (\<forall>e. literal_or_derived request_time (expires_on tok) content = Inr e \<longrightarrow> e \<ge> 7200 \<longrightarrow>
              refresh_on tok = Some (request_time + e div 2) \<and>
              map_of (ev_response event) ''refresh_in'' = Some (JInt (e div 2))) \<and>
           (\<forall>literal. map_of content ''expires_in'' = Some literal \<longrightarrow> py_int literal = Inr 7200 \<longrightarrow>
              refresh_on tok = Some (request_time + 3600)) \<and>
           (map_of (ev_response event) ''refresh_in'' = None \<longrightarrow> refresh_on tok = None)"
proof -
  from process_response_Inr [OF assms(1,2)]
  obtain cache self1 content1 cache1 content2 event where
    u: "update_refresh_tokens cache (req_body (resp_http_request response)) content
          = (Inr content1, cache1)" and
    b: "build_token (resp_http_response response) request_time content1 = Inr (tok, content2)" and
    e: "cache_event self1 (resp_http_request response) content2 = Inr event" and
    s: "self' = put_cache self1 kwargs (add event request_time cache1)"
    by blast
  from build_token_Inr [OF b] obtain n where
    eo: "compute_expires_on request_time content1 = Inr (expires_on tok)" and
    n: "compute_expires_in request_time (expires_on tok) content1 = Inr n" and
    c2: "content2 = synthesize_refresh_in n content1" and
    ro: "compute_refresh_on request_time content2 = Inr (refresh_on tok)"
    by blast
  have ei: "map_of content1 ''expires_in'' = map_of content ''expires_in''"
    by (rule update_refresh_tokens_map_of [OF u]) simp
  have eon: "map_of content1 ''expires_on'' = map_of content ''expires_on''"
    by (rule update_refresh_tokens_map_of [OF u]) simp
  have ri: "map_of content1 ''refresh_in'' = map_of content ''refresh_in''"
    by (rule update_refresh_tokens_map_of [OF u]) simp
  from compute_expires_on_Inr [OF eo] have pin_on:
    "case map_of content ''expires_on'' of
       Some v \<Rightarrow> py_int v = Inr (expires_on tok)
     | None \<Rightarrow> (\<exists>literal n. map_of content ''expires_in'' = Some literal \<and>
                   py_int literal = Inr n \<and> expires_on tok = request_time + n)"
    by (simp only: ei eon)
  from compute_expires_in_Inr [OF n] have pin_in:
    "case map_of content ''expires_in'' of
       None \<Rightarrow> n = expires_on tok - request_time
     | Some literal \<Rightarrow>
         if truthy literal then py_int literal = Inr n else n = expires_on tok - request_time"
    by (simp only: ei)
  from ri assms(3) have nr: "\<not> has_key content1 ''refresh_in''"
    by (simp add: has_key_cong [OF ri])
  from ro c2 have r: "refresh_on tok = (if n \<ge> 7200 then Some (request_time + n div 2) else None)"
    by (simp add: compute_refresh_on_synthesized [OF nr])
  from e have "ev_response event = content2" by (rule cache_event_response)
  with c2 have m: "map_of (ev_response event) ''refresh_in''
                   = (if n \<ge> 7200 then Some (JInt (n div 2)) else None)"
    by (simp add: map_of_refresh_in_synthesized [OF nr])
  have claim: "\<forall>e. literal_or_derived request_time (expires_on tok) content = Inr e \<longrightarrow> e \<ge> 7200 \<longrightarrow>
              refresh_on tok = Some (request_time + e div 2) \<and>
              map_of (ev_response event) ''refresh_in'' = Some (JInt (e div 2))"
  proof (intro allI impI)
    fix e
    assume "literal_or_derived request_time (expires_on tok) content = Inr e" and ge: "e \<ge> 7200"
    with pin_in have "e = n" by (rule literal_or_derived_long)
    with ge r m show "refresh_on tok = Some (request_time + e div 2) \<and>
              map_of (ev_response event) ''refresh_in'' = Some (JInt (e div 2))"
      by simp
  qed
  have lit: "\<forall>literal. map_of content ''expires_in'' = Some literal \<longrightarrow> py_int literal = Inr 7200 \<longrightarrow>
              refresh_on tok = Some (request_time + 3600)"
  proof (intro allI impI)
    fix literal
    assume "map_of content ''expires_in'' = Some literal" "py_int literal = Inr 7200"
    then have "literal_or_derived request_time (expires_on tok) content = Inr 7200"
      by (simp add: literal_or_derived_def)
    with claim show "refresh_on tok = Some (request_time + 3600)" by fastforce
  qed
  from r m have none: "map_of (ev_response event) ''refresh_in'' = None \<longrightarrow> refresh_on tok = None"
    by (simp split: if_splits)
  show ?thesis
    apply (intro exI [of _ n] exI [of _ self1] exI [of _ event] exI [of _ cache1] conjI)
           apply (rule s)
          apply (rule pin_on)
         apply (rule pin_in)
        apply (rule r)
       apply (rule m)
      apply (rule claim)
     apply (rule lit)
    apply (rule none)
    done
qed

theorem refresh_in_synthesized_witness:
  "(\<exists>self'. process_response add_sample load_sample sample_client token_response 1000 no_options
        = (Inr \<lparr>token = JStr ''at-1'', expires_on = 8200, token_type = JStr ''Bearer'',
                 refresh_on = Some (1000 + 3600)\<rparr>, self') \<and>
      literal_or_derived 1000 8200 [(''token_type'', JStr ''Bearer''), (''expires_in'', JInt 7200),
            (''access_token'', JStr ''at-1''), (''refresh_token'', JStr ''new-rt'')] = Inr 7200) \<and>
   (\<exists>self'. process_response add_sample load_sample sample_client derived_response 1000 no_options
        = (Inr \<lparr>token = JStr ''at-2'', expires_on = 9000, token_type = JStr ''Bearer'',
                 refresh_on = Some (1000 + 8000 div 2)\<rparr>, self') \<and>
      literal_or_derived 1000 9000 [(''token_type'', JStr ''Bearer''), (''expires_on'', JStr ''9000''),
            (''access_token'', JStr ''at-2'')] = Inr 8000) \<and>
   (\<exists>self'. process_response add_sample load_sample sample_client short_lived_response 1000 no_options
        = (Inr \<lparr>token = JStr ''at-3'', expires_on = 4600, token_type = JStr ''Bearer'',
                 refresh_on = None\<rparr>, self'))"
proof -
  let ?c1 = "[(''token_type'', JStr ''Bearer''), (''expires_in'', JInt 7200),
              (''access_token'', JStr ''at-1''), (''refresh_token'', JStr ''new-rt'')]"
  let ?c2 = "[(''token_type'', JStr ''Bearer''), (''expires_on'', JStr ''9000''),
              (''access_token'', JStr ''at-2'')]"
  let ?c3 = "[(''expires_in'', JInt 3600), (''access_token'', JStr ''at-3'')]"
  obtain t1 s1 where p1: "process_response add_sample load_sample sample_client token_response
      1000 no_options = (Inr t1, s1)"
    and t1: "token t1 = JStr ''at-1''" "expires_on t1 = 8200" "token_type t1 = JStr ''Bearer''"
    by (simp add: token_response_def sample_defs process_response_defs)
  have d1: "decode_content token_response = Inr ?c1"
    by (simp add: decode_content_def token_response_def)
  have r1: "\<not> has_key ?c1 ''refresh_in''" by (simp add: has_key_def)
  have l1: "literal_or_derived 1000 8200 ?c1 = Inr 7200" by (simp add: literal_or_derived_def)
  from refresh_in_synthesized [OF p1 d1 r1] t1 l1
  have "refresh_on t1 = Some (1000 + 3600)" by auto
  with p1 t1 l1 have first: "\<exists>self'. process_response add_sample load_sample sample_client token_response 1000 no_options
        = (Inr \<lparr>token = JStr ''at-1'', expires_on = 8200, token_type = JStr ''Bearer'',
                 refresh_on = Some (1000 + 3600)\<rparr>, self') \<and>
      literal_or_derived 1000 8200 ?c1 = Inr 7200"
    by (cases t1) simp
  obtain t2 s2 where p2: "process_response add_sample load_sample sample_client derived_response
      1000 no_options = (Inr t2, s2)"
    and t2: "token t2 = JStr ''at-2''" "expires_on t2 = 9000" "token_type t2 = JStr ''Bearer''"
    by (simp add: derived_response_def client_credentials_request_def sample_defs
        process_response_defs int_of_str_def strip_def is_blank_def parse_unsigned_def
        is_digit_def digit_val_def)
  have d2: "decode_content derived_response = Inr ?c2"
    by (simp add: decode_content_def derived_response_def)
  have r2: "\<not> has_key ?c2 ''refresh_in''" by (simp add: has_key_def)
  have l2: "literal_or_derived 1000 9000 ?c2 = Inr 8000" by (simp add: literal_or_derived_def)
  from refresh_in_synthesized [OF p2 d2 r2] t2 l2
  have "refresh_on t2 = Some (1000 + 8000 div 2)" by auto
  with p2 t2 l2 have second: "\<exists>self'. process_response add_sample load_sample sample_client derived_response 1000 no_options
        = (Inr \<lparr>token = JStr ''at-2'', expires_on = 9000, token_type = JStr ''Bearer'',
                 refresh_on = Some (1000 + 8000 div 2)\<rparr>, self') \<and>
      literal_or_derived 1000 9000 ?c2 = Inr 8000"
    by (cases t2) simp
  obtain t3 s3 where p3: "process_response add_sample load_sample sample_client short_lived_response
      1000 no_options = (Inr t3, s3)"
    and t3: "token t3 = JStr ''at-3''" "expires_on t3 = 4600" "token_type t3 = JStr ''Bearer''"
    by (simp add: short_lived_response_def client_credentials_request_def sample_defs
        process_response_defs)
  have d3: "decode_content short_lived_response = Inr ?c3"
    by (simp add: decode_content_def short_lived_response_def)
  have r3: "\<not> has_key ?c3 ''refresh_in''" by (simp add: has_key_def)
  from refresh_in_synthesized [OF p3 d3 r3] t3
  have "refresh_on t3 = None" by auto
  with p3 t3 have third: "\<exists>self'. process_response add_sample load_sample sample_client short_lived_response 1000 no_options
        = (Inr \<lparr>token = JStr ''at-3'', expires_on = 4600, token_type = JStr ''Bearer'',
                 refresh_on = None\<rparr>, self')"
    by (cases t3) simp
  from first second third show ?thesis by (intro conjI)
qed

text \<open>A literal \<open>expires_in\<close> of zero beside \<open>expires_on = request_time + 10000\<close>: the
  lifetime is derived, and \<open>refresh_in\<close> is 5000.\<close>

lemma falsy_expires_in_counts_as_absent:
  "fst (process_response add_sample load_sample sample_client zero_expires_in_response 1000 no_options)
     = Inr \<lparr>token = JStr ''at-4'', expires_on = 11000, token_type = JStr ''Bearer'',
             refresh_on = Some 6000\<rparr>"
  by (simp add: zero_expires_in_response_def client_credentials_request_def sample_defs
      process_response_defs)

section \<open>Authentication errors\<close>

















section \<open>The authentication error of a response\<close>







section \<open>Base64url\<close>

lemma length_b64_alphabet: "length b64_alphabet = 64"
  by (simp add: b64_alphabet_def)

lemma distinct_b64_alphabet: "distinct b64_alphabet"
  by (simp add: b64_alphabet_def)

lemma index_of_nth: "distinct xs \<Longrightarrow> n < length xs \<Longrightarrow> index_of (xs ! n) xs = n"
proof (induction xs arbitrary: n)
  case Nil
  then show ?case by simp
next
  case (Cons x xs)
  then show ?case by (cases n) auto
qed

lemma b64_value_b64_char: "n < 64 \<Longrightarrow> b64_value (b64_char n) = n"
  by (simp add: b64_value_def b64_char_def index_of_nth distinct_b64_alphabet length_b64_alphabet)

lemma is_b64_char_b64_char: "is_b64_char (b64_char n)"
  by (simp add: is_b64_char_def b64_char_def length_b64_alphabet)

lemma pad_not_b64: "\<not> is_b64_char CHR ''=''"
  by (simp add: is_b64_char_def b64_alphabet_def)

lemma dot_not_b64: "\<not> is_b64_char CHR ''.''"
  by (simp add: is_b64_char_def b64_alphabet_def)

lemma b64_char_not_pad: "b64_char n \<noteq> CHR ''=''"
  using is_b64_char_b64_char [of n] pad_not_b64 by auto

lemma of_char_less_256: "(of_char c :: nat) < 256"
proof -
  have "(of_char c :: nat) mod 256 < 256" by simp
  then show ?thesis by (simp only: of_char_mod_256)
qed

lemma sextet_arith:
  fixes a b c :: nat
  assumes "a < 256" "b < 256" "c < 256"
  shows "a div 4 < 64" and "(a mod 4) * 16 + b div 16 < 64"
    and "(b mod 16) * 4 + c div 64 < 64" and "c mod 64 < 64"
    and "a div 4 * 4 + ((a mod 4) * 16 + b div 16) div 16 = a"
    and "(((a mod 4) * 16 + b div 16) mod 16) * 16 + ((b mod 16) * 4 + c div 64) div 4 = b"
    and "(((b mod 16) * 4 + c div 64) mod 4) * 64 + c mod 64 = c"
  using assms by simp_all

lemmas sextet_chars =
  sextet_arith [OF of_char_less_256 of_char_less_256 of_char_less_256]

lemma sextet_bounds:
  "sextet1 a < 64" "sextet2 a b < 64" "sextet3 b c < 64" "sextet4 c < 64"
  unfolding sextet1_def sextet2_def sextet3_def sextet4_def
  by (rule sextet_chars)+

lemma octet1_sextets: "octet1 (sextet1 a) (sextet2 a b) = a"
  unfolding octet1_def sextet1_def sextet2_def
  by (simp only: sextet_chars(5) char_of_char)

lemma octet2_sextets: "octet2 (sextet2 a b) (sextet3 b c) = b"
  unfolding octet2_def sextet2_def sextet3_def
  by (simp only: sextet_chars(6) char_of_char)

lemma octet3_sextets: "octet3 (sextet3 b c) (sextet4 c) = c"
  unfolding octet3_def sextet3_def sextet4_def
  by (simp only: sextet_chars(7) char_of_char)

lemma urlsafe_b64decode_encode: "urlsafe_b64decode (urlsafe_b64encode x) = Some x"
  by (induction x rule: urlsafe_b64encode.induct)
    (simp_all add: is_b64_char_b64_char b64_char_not_pad b64_value_b64_char sextet_bounds
      octet1_sextets octet2_sextets octet3_sextets)

lemma urlsafe_b64encode_chars:
  "c \<in> set (urlsafe_b64encode x) \<Longrightarrow> is_b64_char c \<or> c = CHR ''=''"
  by (induction x rule: urlsafe_b64encode.induct) (auto simp add: is_b64_char_b64_char)

lemma urlsafe_b64encode_no_dot: "CHR ''.'' \<notin> set (urlsafe_b64encode x)"
  using urlsafe_b64encode_chars [of "CHR ''.''" x] dot_not_b64 by auto

lemma length_urlsafe_b64encode: "length (urlsafe_b64encode x) mod 4 = 0"
  by (induction x rule: urlsafe_b64encode.induct) simp_all

lemma urlsafe_b64encode_padding:
  "length x mod 3 = 1 \<Longrightarrow> \<exists>body. urlsafe_b64encode x = body @ ''==''"
proof (induction x rule: urlsafe_b64encode.induct)
  case 1
  then show ?case by simp
next
  case (2 a)
  then show ?case by simp
next
  case (3 a b)
  then show ?case by simp
next
  case (4 a b c rest)
  then have "length rest mod 3 = 1" by simp
  with 4 obtain body where "urlsafe_b64encode rest = body @ ''==''" by blast
  then show ?case by simp
qed

lemma split_on_no_sep: "sep \<notin> set a \<Longrightarrow> split_on sep a = [a]"
  by (induction a) auto

lemma split_on_nonempty: "split_on sep s \<noteq> []"
  by (induction s) (auto split: list.splits)

lemma split_on_append:
  "sep \<notin> set a \<Longrightarrow> split_on sep (a @ sep # rest) = a # split_on sep rest"
proof (induction a)
  case Nil
  with split_on_nonempty [of sep rest] show ?case
    by (cases "split_on sep rest") simp_all
next
  case (Cons x xs)
  then show ?case by auto
qed

lemma split_on_three:
  assumes "sep \<notin> set a" "sep \<notin> set b" "sep \<notin> set c"
  shows "split_on sep (a @ [sep] @ b @ [sep] @ c) = [a, b, c]"
  using assms by (simp add: split_on_append split_on_no_sep)

section \<open>The client assertion and the on-behalf-of requests\<close>

lemma base64url_padded_encode: "base64url_padded (urlsafe_b64encode x)"
  by (induction x rule: urlsafe_b64encode.induct)
    (simp_all add: base64url_padded_def b64_char_not_pad is_b64_char_b64_char)

lemma get_client_certificate_assertion_value:
  assumes "get_token_url resolve_tenant self kwargs = Inr aud"
  shows "get_client_certificate_assertion dumps resolve_tenant now jti self cert kwargs
         = Inr (urlsafe_b64encode (dumps (JObj (assertion_headers self cert))) @ ''.'' @
                urlsafe_b64encode (dumps (JObj (assertion_payload self jti aud now))) @ ''.'' @
                urlsafe_b64encode
                  (if self_is_adfs self then
                     sign_rs256 cert
                       (urlsafe_b64encode (dumps (JObj (assertion_headers self cert))) @ ''.'' @
                        urlsafe_b64encode (dumps (JObj (assertion_payload self jti aud now))))
                   else
                     sign_ps256 cert
                       (urlsafe_b64encode (dumps (JObj (assertion_headers self cert))) @ ''.'' @
                        urlsafe_b64encode (dumps (JObj (assertion_payload self jti aud now))))))"
  using assms by (simp add: get_client_certificate_assertion_def Let_def)

lemma segments_of_encoded:
  "split_on CHR ''.'' (urlsafe_b64encode h @ ''.'' @ urlsafe_b64encode p @ ''.'' @ urlsafe_b64encode s)
   = [urlsafe_b64encode h, urlsafe_b64encode p, urlsafe_b64encode s]"
  using split_on_three [OF urlsafe_b64encode_no_dot urlsafe_b64encode_no_dot
      urlsafe_b64encode_no_dot, of h p s]
  by simp

lemma decode_segment_encoded:
  "loads text = Inr v \<Longrightarrow> decode_segment loads (urlsafe_b64encode text) = Inr v"
  by (simp add: decode_segment_def urlsafe_b64decode_encode)

text \<open>
  C3 (as amended). When the token endpoint resolves, the signer returns three segments
  joined by \<open>.\<close>: the base64url encodings, with their \<open>=\<close> padding kept, of the serialised
  header, of the serialised payload and of the signature over the first two segments (RS256
  for ADFS, PS256 otherwise); splitting the result at \<open>.\<close> gives back these three segments.
\<close>

theorem client_certificate_assertion_encoding:
  assumes "get_token_url resolve_tenant self kwargs = Inr aud"
  shows "\<exists>header payload signature.
           get_client_certificate_assertion dumps resolve_tenant now jti self cert kwargs
             = Inr (header @ ''.'' @ payload @ ''.'' @ signature) \<and>
           header = urlsafe_b64encode (dumps (JObj (assertion_headers self cert))) \<and>
           payload = urlsafe_b64encode (dumps (JObj (assertion_payload self jti aud now))) \<and>
           signature = urlsafe_b64encode
                         (if self_is_adfs self then sign_rs256 cert (header @ ''.'' @ payload)
                          else sign_ps256 cert (header @ ''.'' @ payload)) \<and>
           split_on CHR ''.'' (header @ ''.'' @ payload @ ''.'' @ signature)
             = [header, payload, signature] \<and>
           base64url_padded header \<and> base64url_padded payload \<and> base64url_padded signature"
proof -
  let ?h = "urlsafe_b64encode (dumps (JObj (assertion_headers self cert)))"
  let ?p = "urlsafe_b64encode (dumps (JObj (assertion_payload self jti aud now)))"
  let ?s = "urlsafe_b64encode
              (if self_is_adfs self then sign_rs256 cert (?h @ ''.'' @ ?p)
               else sign_ps256 cert (?h @ ''.'' @ ?p))"
  have "get_client_certificate_assertion dumps resolve_tenant now jti self cert kwargs
        = Inr (?h @ ''.'' @ ?p @ ''.'' @ ?s)"
    by (rule get_client_certificate_assertion_value [OF assms])
  moreover have "split_on CHR ''.'' (?h @ ''.'' @ ?p @ ''.'' @ ?s) = [?h, ?p, ?s]"
    by (rule segments_of_encoded)
  moreover have "base64url_padded ?h" "base64url_padded ?p" "base64url_padded ?s"
    by (rule base64url_padded_encode)+
  ultimately show ?thesis by blast
qed

lemma assertion_headers_alg:
  "map_of (assertion_headers self cert) ''alg''
     = Some (JStr (if self_is_adfs self then ''RS256'' else ''PS256''))"
  "map_of (assertion_headers self cert) ''x5t''
     = (if self_is_adfs self then Some (JStr (thumbprint cert)) else None)"
  "map_of (assertion_headers self cert) ''x5t#S256''
     = (if self_is_adfs self then None else Some (JStr (sha256_thumbprint cert)))"
  by (simp_all add: assertion_headers_def)

lemma assertion_payload_claims:
  "map_of (assertion_payload self jti aud now) ''exp'' = Some (JInt (now + 1800))"
  "map_of (assertion_payload self jti aud now) ''nbf'' = Some (JInt now)"
  "map_of (assertion_payload self jti aud now) ''aud'' = Some (JStr aud)"
  by (simp_all add: assertion_payload_def)

lemma init_is_adfs:
  assumes "init normalize_authority default_authority pipeline tenant client authority cache
             cae_cache allowed options = Inr self"
  shows "self_is_adfs self = (lower tenant = ''adfs'')"
    and "self_custom_cache self = (cache \<noteq> None \<or> cae_cache \<noteq> None)"
    and "self_cache self = cache" and "self_cae_cache self = cae_cache"
    and "self_tenant_id self = tenant"
  using assms by (auto simp add: init_def split: sum.splits)

text \<open>
  C4. For a client as \<open>__init__\<close> builds it (its caches may have been created since), with a JSON
  parser that reads back what the serialiser wrote for the header and the payload:
  decoding the first two segments of the assertion gives a payload with
  \<open>exp - nbf = 1800\<close> and \<open>aud\<close> the token endpoint URL of the call, and a header with
  \<open>alg = RS256\<close> and the \<open>x5t\<close> thumbprint when the tenant id, lower-cased, is \<open>adfs\<close>, and
  with \<open>alg = PS256\<close> and the \<open>x5t#S256\<close> thumbprint otherwise.
\<close>

theorem client_certificate_assertion_claims:
  assumes "init normalize_authority default_authority pipeline tenant client authority cache
             cae_cache allowed options = Inr self0"
    and "self = self0\<lparr>self_cache := cache', self_cae_cache := cae_cache'\<rparr>"
    and "get_token_url resolve_tenant self kwargs = Inr aud"
    and "loads (dumps (JObj (assertion_headers self cert)))
         = Inr (JObj (assertion_headers self cert))"
    and "loads (dumps (JObj (assertion_payload self jti aud now)))
         = Inr (JObj (assertion_payload self jti aud now))"
  shows "\<exists>header payload signature h p exp nbf.
           get_client_certificate_assertion dumps resolve_tenant now jti self cert kwargs
             = Inr (header @ ''.'' @ payload @ ''.'' @ signature) \<and>
           split_on CHR ''.'' (header @ ''.'' @ payload @ ''.'' @ signature)
             = [header, payload, signature] \<and>
           decode_segment loads header = Inr (JObj h) \<and>
           decode_segment loads payload = Inr (JObj p) \<and>
           map_of p ''exp'' = Some (JInt exp) \<and> map_of p ''nbf'' = Some (JInt nbf) \<and>
           exp - nbf = 1800 \<and>
           map_of p ''aud'' = Some (JStr aud) \<and>
           map_of h ''alg'' = Some (JStr (if lower tenant = ''adfs'' then ''RS256'' else ''PS256'')) \<and>
           map_of h ''x5t''
             = (if lower tenant = ''adfs'' then Some (JStr (thumbprint cert)) else None) \<and>
           map_of h ''x5t#S256''
             = (if lower tenant = ''adfs'' then None else Some (JStr (sha256_thumbprint cert)))"
proof -
  let ?hd = "assertion_headers self cert"
  let ?pl = "assertion_payload self jti aud now"
  let ?h = "urlsafe_b64encode (dumps (JObj ?hd))"
  let ?p = "urlsafe_b64encode (dumps (JObj ?pl))"
  let ?s = "urlsafe_b64encode
              (if self_is_adfs self then sign_rs256 cert (?h @ ''.'' @ ?p)
               else sign_ps256 cert (?h @ ''.'' @ ?p))"
  from assms(1,2) have adfs: "self_is_adfs self = (lower tenant = ''adfs'')"
    by (simp add: init_is_adfs(1))
  have "get_client_certificate_assertion dumps resolve_tenant now jti self cert kwargs
        = Inr (?h @ ''.'' @ ?p @ ''.'' @ ?s)"
    by (rule get_client_certificate_assertion_value [OF assms(3)])
  moreover have "split_on CHR ''.'' (?h @ ''.'' @ ?p @ ''.'' @ ?s) = [?h, ?p, ?s]"
    by (rule segments_of_encoded)
  moreover have "decode_segment loads ?h = Inr (JObj ?hd)"
    using assms(4) by (rule decode_segment_encoded)
  moreover have "decode_segment loads ?p = Inr (JObj ?pl)"
    using assms(5) by (rule decode_segment_encoded)
  moreover have "map_of ?pl ''exp'' = Some (JInt (now + 1800))" "map_of ?pl ''nbf'' = Some (JInt now)"
    "(now + 1800) - now = 1800" "map_of ?pl ''aud'' = Some (JStr aud)"
    by (simp_all add: assertion_payload_claims)
  moreover have "map_of ?hd ''alg'' = Some (JStr (if lower tenant = ''adfs'' then ''RS256'' else ''PS256''))"
    "map_of ?hd ''x5t'' = (if lower tenant = ''adfs'' then Some (JStr (thumbprint cert)) else None)"
    "map_of ?hd ''x5t#S256''
       = (if lower tenant = ''adfs'' then None else Some (JStr (sha256_thumbprint cert)))"
    by (simp_all only: assertion_headers_alg adfs)
  ultimately show ?thesis by blast
qed

lemma add_claims_keeps:
  assumes "add_claims loads dumps kwargs data = Inr data1"
  shows "data1 = data \<or> (\<exists>c. data1 = AList.update ''claims'' (JStr c) data)"
  using assms by (auto simp add: add_claims_def split: sum.splits option.splits if_splits)

lemma add_client_credential_certificate:
  assumes "add_client_credential dumps resolve_tenant now jti self (Certificate cert) data = Inr data2"
  shows "\<exists>jwt. get_client_certificate_assertion dumps resolve_tenant now jti self cert no_options
                 = Inr jwt \<and>
               map_of data2 ''client_assertion'' = Some (JStr jwt) \<and>
               map_of data2 ''client_assertion_type'' = Some (JStr JWT_BEARER_ASSERTION)"
  using assms
  by (auto simp add: add_client_credential_def update_conv' split: sum.splits)

lemma post_request:
  assumes "post resolve_tenant self data kwargs = Inr request"
  shows "req_body request = data"
    and "\<exists>tenant. resolve_tenant (self_tenant_id self) (self_additionally_allowed_tenants self) kwargs
                    = Inr tenant \<and>
                  req_url request = token_endpoint (self_authority self) tenant"
  using assms
  by (auto simp add: post_def get_token_url_def token_endpoint_def split: sum.splits)

lemma on_behalf_of_request_parts:
  assumes "builder = get_on_behalf_of_request \<or> builder = get_refresh_token_on_behalf_of_request"
    and "builder loads dumps resolve_tenant now jti self scopes credential subject kwargs = Inr request"
  shows "\<exists>data1 data2. add_client_credential dumps resolve_tenant now jti self credential data1
                          = Inr data2 \<and>
                        post resolve_tenant self data2 kwargs = Inr request"
proof -
  have a: "get_on_behalf_of_request loads dumps resolve_tenant now jti self scopes credential
             subject kwargs = Inr request \<Longrightarrow> ?thesis"
    by (clarsimp simp add: get_on_behalf_of_request_def Let_def split: sum.splits) blast
  have b: "get_refresh_token_on_behalf_of_request loads dumps resolve_tenant now jti self scopes
             credential subject kwargs = Inr request \<Longrightarrow> ?thesis"
    by (clarsimp simp add: get_refresh_token_on_behalf_of_request_def Let_def split: sum.splits)
      blast
  from assms a b show ?thesis by blast
qed

text \<open>
  C10. Both on-behalf-of builders, with a certificate credential and any keyword arguments:
  when \<open>resolve_tenant\<close> gives the default tenant for a call without keyword arguments, the
  \<open>aud\<close> of the client assertion in the request body is the token endpoint of the default
  tenant, while the request URL is the token endpoint of the tenant resolved for the
  call's keyword arguments.
\<close>

theorem on_behalf_of_assertion_audience:
  assumes "builder = get_on_behalf_of_request \<or> builder = get_refresh_token_on_behalf_of_request"
    and "builder loads dumps resolve_tenant now jti self scopes (Certificate cert) subject kwargs
         = Inr request"
    and "resolve_tenant (self_tenant_id self) (self_additionally_allowed_tenants self) no_options
         = Inr (self_tenant_id self)"
    and "loads (dumps (JObj (assertion_payload self jti
                   (token_endpoint (self_authority self) (self_tenant_id self)) now)))
         = Inr (JObj (assertion_payload self jti
                   (token_endpoint (self_authority self) (self_tenant_id self)) now))"
  shows "\<exists>header payload signature p tenant.
           map_of (req_body request) ''client_assertion''
             = Some (JStr (header @ ''.'' @ payload @ ''.'' @ signature)) \<and>
           split_on CHR ''.'' (header @ ''.'' @ payload @ ''.'' @ signature)
             = [header, payload, signature] \<and>
           decode_segment loads payload = Inr (JObj p) \<and>
           map_of p ''aud''
             = Some (JStr (token_endpoint (self_authority self) (self_tenant_id self))) \<and>
           resolve_tenant (self_tenant_id self) (self_additionally_allowed_tenants self) kwargs
             = Inr tenant \<and>
           req_url request = token_endpoint (self_authority self) tenant"
proof -
  let ?aud = "token_endpoint (self_authority self) (self_tenant_id self)"
  let ?pl = "assertion_payload self jti ?aud now"
  let ?h = "urlsafe_b64encode (dumps (JObj (assertion_headers self cert)))"
  let ?p = "urlsafe_b64encode (dumps (JObj ?pl))"
  let ?s = "urlsafe_b64encode
              (if self_is_adfs self then sign_rs256 cert (?h @ ''.'' @ ?p)
               else sign_ps256 cert (?h @ ''.'' @ ?p))"
  from on_behalf_of_request_parts [OF assms(1,2)] obtain data1 data2 where
    cred: "add_client_credential dumps resolve_tenant now jti self (Certificate cert) data1
           = Inr data2" and
    p: "post resolve_tenant self data2 kwargs = Inr request"
    by blast
  from add_client_credential_certificate [OF cred] obtain jwt where
    jwt: "get_client_certificate_assertion dumps resolve_tenant now jti self cert no_options
          = Inr jwt" and
    ca: "map_of data2 ''client_assertion'' = Some (JStr jwt)"
    by blast
  have url: "get_token_url resolve_tenant self no_options = Inr ?aud"
    by (simp add: get_token_url_def assms(3) token_endpoint_def)
  from jwt get_client_certificate_assertion_value [OF url, of dumps now jti cert]
  have j: "jwt = ?h @ ''.'' @ ?p @ ''.'' @ ?s" by simp
  from post_request [OF p] obtain tenant where
    body: "req_body request = data2" and
    t: "resolve_tenant (self_tenant_id self) (self_additionally_allowed_tenants self) kwargs
        = Inr tenant" and
    u: "req_url request = token_endpoint (self_authority self) tenant"
    by blast
  have "map_of (req_body request) ''client_assertion'' = Some (JStr (?h @ ''.'' @ ?p @ ''.'' @ ?s))"
    using body ca j by simp
  moreover have "split_on CHR ''.'' (?h @ ''.'' @ ?p @ ''.'' @ ?s) = [?h, ?p, ?s]"
    by (rule segments_of_encoded)
  moreover have "decode_segment loads ?p = Inr (JObj ?pl)"
    using assms(4) by (rule decode_segment_encoded)
  moreover have "map_of ?pl ''aud'' = Some (JStr ?aud)"
    by (rule assertion_payload_claims)
  ultimately show ?thesis using t u by blast
qed

lemma lower_samples: "lower ''ADFS'' = ''adfs''" "lower ''tenant'' = ''tenant''"
  by (simp_all add: lower_def lower_char_def)

lemma sample_token_url:
  "get_token_url resolve_sample sample_client no_options
   = Inr ''https://login.microsoftonline.com/tenant/oauth2/v2.0/token''"
  by (simp add: get_token_url_def resolve_sample_def sample_client_def no_options_def)

lemma sample_header:
  "urlsafe_b64encode (dumps_sample (JObj (assertion_headers sample_client sample_certificate)))
   = ''eyJ0eXAiOiAiSldUIiwgImFsZyI6ICJQUzI1NiIsICJ4NXQjUzI1NiI6ICJjMmhoTWpVMiJ9''"
  by (simp add: assertion_headers_def sample_client_def sample_certificate_def
      dumps_sample_values b64_char_def b64_alphabet_def sextet1_def sextet2_def sextet3_def
      sextet4_def)

lemma sample_client_init:
  "init normalize_sample ''https://login.microsoftonline.com'' () ''tenant'' ''client'' None
     (Some sample_cache) None None None = Inr sample_client"
  by (simp add: init_def sample_client_def lower_samples)

lemma sample_signature:
  "sign_ps256 sample_certificate jws = replicate 256 (CHR 0x01)"
  by (simp add: sample_certificate_def)

theorem client_certificate_assertion_encoding_witness:
  "get_token_url resolve_sample sample_client no_options
     = Inr ''https://login.microsoftonline.com/tenant/oauth2/v2.0/token'' \<and>
   urlsafe_b64encode (dumps_sample (JObj (assertion_headers sample_client sample_certificate)))
     = ''eyJ0eXAiOiAiSldUIiwgImFsZyI6ICJQUzI1NiIsICJ4NXQjUzI1NiI6ICJjMmhoTWpVMiJ9'' \<and>
   (\<exists>header payload signature.
      get_client_certificate_assertion dumps_sample resolve_sample 1000 ''jti-1'' sample_client
          sample_certificate no_options
        = Inr (header @ ''.'' @ payload @ ''.'' @ signature) \<and>
      header = urlsafe_b64encode
                 (dumps_sample (JObj (assertion_headers sample_client sample_certificate))) \<and>
      payload = urlsafe_b64encode
                  (dumps_sample (JObj (assertion_payload sample_client ''jti-1''
                     ''https://login.microsoftonline.com/tenant/oauth2/v2.0/token'' 1000))) \<and>
      signature = urlsafe_b64encode
                    (if self_is_adfs sample_client
                     then sign_rs256 sample_certificate (header @ ''.'' @ payload)
                     else sign_ps256 sample_certificate (header @ ''.'' @ payload)) \<and>
      split_on CHR ''.'' (header @ ''.'' @ payload @ ''.'' @ signature)
        = [header, payload, signature] \<and>
      base64url_padded header \<and> base64url_padded payload \<and> base64url_padded signature)"
  using sample_token_url sample_header
    client_certificate_assertion_encoding [OF sample_token_url, of dumps_sample 1000 "''jti-1''"
      sample_certificate]
  by simp

text \<open>
  C3 as stated fails: with a signature of 256 bytes (a 2048-bit RSA key) the third segment
  ends in \<open>==\<close>, so the assertion is not in the unpadded form of a compact JWT.
\<close>

theorem assertion_is_not_compact_jwt:
  "(case get_client_certificate_assertion dumps_sample resolve_sample 1000 ''jti-1'' sample_client
           sample_certificate no_options of
      Inl e \<Rightarrow> False
    | Inr jwt \<Rightarrow> \<not> compact_jwt jwt \<and> last jwt = CHR ''='')"
proof -
  let ?h = "urlsafe_b64encode (dumps_sample (JObj (assertion_headers sample_client sample_certificate)))"
  let ?p = "urlsafe_b64encode (dumps_sample (JObj (assertion_payload sample_client ''jti-1''
              ''https://login.microsoftonline.com/tenant/oauth2/v2.0/token'' 1000)))"
  let ?s = "urlsafe_b64encode (replicate 256 (CHR 0x01))"
  have v: "get_client_certificate_assertion dumps_sample resolve_sample 1000 ''jti-1'' sample_client
             sample_certificate no_options = Inr (?h @ ''.'' @ ?p @ ''.'' @ ?s)"
    using get_client_certificate_assertion_value [OF sample_token_url, of dumps_sample 1000
        "''jti-1''" sample_certificate]
    by (simp add: sample_signature) (simp add: sample_client_def)
  have "length (replicate 256 (CHR 0x01)) mod 3 = 1" by simp
  then obtain body where s: "?s = body @ ''==''"
    using urlsafe_b64encode_padding by blast
  have seg: "split_on CHR ''.'' (?h @ ''.'' @ ?p @ ''.'' @ ?s) = [?h, ?p, ?s]"
    by (rule segments_of_encoded)
  have "compact_jwt (?h @ ''.'' @ ?p @ ''.'' @ ?s) = list_all is_b64_char (?h @ ?p @ ?s)"
    unfolding compact_jwt_def seg by simp
  moreover have "\<not> list_all is_b64_char (?h @ ?p @ ?s)"
    using s pad_not_b64 by simp
  ultimately have "\<not> compact_jwt (?h @ ''.'' @ ?p @ ''.'' @ ?s)"
    by simp
  moreover have "last (?h @ ''.'' @ ?p @ ''.'' @ ?s) = CHR ''=''"
    using s by simp
  ultimately show ?thesis
    by (simp only: v sum.case) simp
qed

lemma adfs_client_init:
  "init normalize_sample ''https://login.microsoftonline.com'' () ''ADFS'' ''client''
     (Some ''https://adfs.contoso.com'') None None None None = Inr adfs_client"
  by (simp add: init_def adfs_client_def lower_samples normalize_sample_def)

lemma adfs_token_url:
  "get_token_url resolve_sample adfs_client no_options
   = Inr ''https://adfs.contoso.com/ADFS/oauth2/v2.0/token''"
  by (simp add: get_token_url_def resolve_sample_def adfs_client_def no_options_def)

lemma sample_roundtrips:
  "loads_sample (dumps_sample (JObj (assertion_headers sample_client sample_certificate)))
   = Inr (JObj (assertion_headers sample_client sample_certificate))"
  "loads_sample (dumps_sample (JObj (assertion_payload sample_client ''jti-1''
       ''https://login.microsoftonline.com/tenant/oauth2/v2.0/token'' 1000)))
   = Inr (JObj (assertion_payload sample_client ''jti-1''
       ''https://login.microsoftonline.com/tenant/oauth2/v2.0/token'' 1000))"
  "loads_sample (dumps_sample (JObj (assertion_headers adfs_client sample_certificate)))
   = Inr (JObj (assertion_headers adfs_client sample_certificate))"
  "loads_sample (dumps_sample (JObj (assertion_payload adfs_client ''jti-1''
       ''https://adfs.contoso.com/ADFS/oauth2/v2.0/token'' 1000)))
   = Inr (JObj (assertion_payload adfs_client ''jti-1''
       ''https://adfs.contoso.com/ADFS/oauth2/v2.0/token'' 1000))"
  by (simp_all add: assertion_headers_def assertion_payload_def sample_client_def
      adfs_client_def sample_certificate_def dumps_sample_values loads_sample_values)

theorem client_certificate_assertion_claims_witness:
  "(\<exists>header payload signature h p exp nbf.
      get_client_certificate_assertion dumps_sample resolve_sample 1000 ''jti-1'' sample_client
          sample_certificate no_options
        = Inr (header @ ''.'' @ payload @ ''.'' @ signature) \<and>
      split_on CHR ''.'' (header @ ''.'' @ payload @ ''.'' @ signature)
        = [header, payload, signature] \<and>
      decode_segment loads_sample header = Inr (JObj h) \<and>
      decode_segment loads_sample payload = Inr (JObj p) \<and>
      map_of p ''exp'' = Some (JInt exp) \<and> map_of p ''nbf'' = Some (JInt nbf) \<and>
      exp - nbf = 1800 \<and>
      map_of p ''aud'' = Some (JStr ''https://login.microsoftonline.com/tenant/oauth2/v2.0/token'') \<and>
      map_of h ''alg'' = Some (JStr ''PS256'') \<and>
      map_of h ''x5t'' = None \<and>
      map_of h ''x5t#S256'' = Some (JStr (sha256_thumbprint sample_certificate))) \<and>
   (\<exists>header payload signature h p exp nbf.
      get_client_certificate_assertion dumps_sample resolve_sample 1000 ''jti-1'' adfs_client
          sample_certificate no_options
        = Inr (header @ ''.'' @ payload @ ''.'' @ signature) \<and>
      split_on CHR ''.'' (header @ ''.'' @ payload @ ''.'' @ signature)
        = [header, payload, signature] \<and>
      decode_segment loads_sample header = Inr (JObj h) \<and>
      decode_segment loads_sample payload = Inr (JObj p) \<and>
      map_of p ''exp'' = Some (JInt exp) \<and> map_of p ''nbf'' = Some (JInt nbf) \<and>
      exp - nbf = 1800 \<and>
      map_of p ''aud'' = Some (JStr ''https://adfs.contoso.com/ADFS/oauth2/v2.0/token'') \<and>
      map_of h ''alg'' = Some (JStr ''RS256'') \<and>
      map_of h ''x5t'' = Some (JStr (thumbprint sample_certificate)) \<and>
      map_of h ''x5t#S256'' = None)"
proof -
  have s: "sample_client = sample_client\<lparr>self_cache := Some sample_cache, self_cae_cache := None\<rparr>"
    by (simp add: sample_client_def)
  have a: "adfs_client = adfs_client\<lparr>self_cache := None, self_cae_cache := None\<rparr>"
    by (simp add: adfs_client_def)
  from client_certificate_assertion_claims
    [OF sample_client_init s sample_token_url sample_roundtrips(1,2)]
    client_certificate_assertion_claims
    [OF adfs_client_init a adfs_token_url sample_roundtrips(3,4)]
  show ?thesis
    by (simp add: lower_samples)
qed

lemma obo_resolution:
  "resolve_sample (self_tenant_id obo_client) (self_additionally_allowed_tenants obo_client)
     no_options = Inr (self_tenant_id obo_client)"
  "resolve_sample (self_tenant_id obo_client) (self_additionally_allowed_tenants obo_client)
     override_options = Inr ''other-tenant''"
  "token_endpoint (self_authority obo_client) (self_tenant_id obo_client)
   = ''https://login.microsoftonline.com/tenant/oauth2/v2.0/token''"
  "token_endpoint (self_authority obo_client) ''other-tenant''
   = ''https://login.microsoftonline.com/other-tenant/oauth2/v2.0/token''"
  by (simp_all add: resolve_sample_def obo_client_def sample_client_def no_options_def
      override_options_def token_endpoint_def)

lemma obo_roundtrip:
  "loads_sample (dumps_sample (JObj (assertion_payload obo_client ''jti-1''
       (token_endpoint (self_authority obo_client) (self_tenant_id obo_client)) 1000)))
   = Inr (JObj (assertion_payload obo_client ''jti-1''
       (token_endpoint (self_authority obo_client) (self_tenant_id obo_client)) 1000))"
  by (simp add: obo_resolution(3))
    (simp add: assertion_payload_def obo_client_def sample_client_def dumps_sample_values
      loads_sample_values)

lemma add_claims_none:
  "\<not> kw_enable_cae kwargs \<Longrightarrow> kw_claims kwargs = None \<Longrightarrow>
   add_claims loads dumps kwargs data = Inr data"
  by (simp add: add_claims_def merge_claims_challenge_and_capabilities_def)

lemma on_behalf_of_requests_built:
  assumes "\<not> kw_enable_cae kwargs" and "kw_claims kwargs = None"
    and "get_token_url resolve_tenant self no_options = Inr aud"
    and "get_token_url resolve_tenant self kwargs = Inr url"
  shows "\<exists>request. get_on_behalf_of_request loads dumps resolve_tenant now jti self scopes
           (Certificate cert) subject kwargs = Inr request"
    and "\<exists>request. get_refresh_token_on_behalf_of_request loads dumps resolve_tenant now jti self
           scopes (Certificate cert) subject kwargs = Inr request"
  by (simp_all add: get_on_behalf_of_request_def get_refresh_token_on_behalf_of_request_def
      add_claims_none [OF assms(1,2)] add_client_credential_def
      get_client_certificate_assertion_value [OF assms(3)] post_def assms(4))

lemma obo_urls:
  "get_token_url resolve_sample obo_client no_options
   = Inr ''https://login.microsoftonline.com/tenant/oauth2/v2.0/token''"
  "get_token_url resolve_sample obo_client override_options
   = Inr ''https://login.microsoftonline.com/other-tenant/oauth2/v2.0/token''"
  by (simp_all add: get_token_url_def resolve_sample_def obo_client_def sample_client_def
      no_options_def override_options_def)

lemma override_options_plain:
  "\<not> kw_enable_cae override_options" "kw_claims override_options = None"
  by (simp_all add: override_options_def no_options_def)

lemmas obo_requests_built =
  on_behalf_of_requests_built [OF override_options_plain obo_urls]

theorem on_behalf_of_assertion_audience_witness:
  "(\<exists>request header payload signature p.
      get_on_behalf_of_request loads_sample dumps_sample resolve_sample 1000 ''jti-1''
          obo_client [''scope-a''] (Certificate sample_certificate) ''user-assertion''
          override_options = Inr request \<and>
      map_of (req_body request) ''client_assertion''
        = Some (JStr (header @ ''.'' @ payload @ ''.'' @ signature)) \<and>
      split_on CHR ''.'' (header @ ''.'' @ payload @ ''.'' @ signature)
        = [header, payload, signature] \<and>
      decode_segment loads_sample payload = Inr (JObj p) \<and>
      map_of p ''aud'' = Some (JStr ''https://login.microsoftonline.com/tenant/oauth2/v2.0/token'') \<and>
      req_url request = ''https://login.microsoftonline.com/other-tenant/oauth2/v2.0/token'') \<and>
   (\<exists>request header payload signature p.
      get_refresh_token_on_behalf_of_request loads_sample dumps_sample resolve_sample 1000
          ''jti-1'' obo_client [''scope-a''] (Certificate sample_certificate) ''old-rt''
          override_options = Inr request \<and>
      map_of (req_body request) ''client_assertion''
        = Some (JStr (header @ ''.'' @ payload @ ''.'' @ signature)) \<and>
      split_on CHR ''.'' (header @ ''.'' @ payload @ ''.'' @ signature)
        = [header, payload, signature] \<and>
      decode_segment loads_sample payload = Inr (JObj p) \<and>
      map_of p ''aud'' = Some (JStr ''https://login.microsoftonline.com/tenant/oauth2/v2.0/token'') \<and>
      req_url request = ''https://login.microsoftonline.com/other-tenant/oauth2/v2.0/token'')"
proof (rule conjI)
  from obo_requests_built(1) [of loads_sample dumps_sample 1000 "''jti-1''" "[''scope-a'']"
      sample_certificate "''user-assertion''"]
  obtain request where
    r: "get_on_behalf_of_request loads_sample dumps_sample resolve_sample 1000 ''jti-1''
          obo_client [''scope-a''] (Certificate sample_certificate) ''user-assertion''
          override_options = Inr request"
    by blast
  have d: "get_on_behalf_of_request = get_on_behalf_of_request \<or>
           get_on_behalf_of_request = get_refresh_token_on_behalf_of_request"
    by (rule disjI1) (rule refl)
  from on_behalf_of_assertion_audience
    [where builder = get_on_behalf_of_request and self = obo_client and loads = loads_sample
       and dumps = dumps_sample and resolve_tenant = resolve_sample and now = 1000
       and jti = "''jti-1''" and cert = sample_certificate and kwargs = override_options
       and request = request and scopes = "[''scope-a'']" and subject = "''user-assertion''",
     OF d r obo_resolution(1) obo_roundtrip]
  obtain header payload signature p tenant where
    f: "map_of (req_body request) ''client_assertion''
          = Some (JStr (header @ ''.'' @ payload @ ''.'' @ signature))"
       "split_on CHR ''.'' (header @ ''.'' @ payload @ ''.'' @ signature)
          = [header, payload, signature]"
       "decode_segment loads_sample payload = Inr (JObj p)"
       "map_of p ''aud''
          = Some (JStr (token_endpoint (self_authority obo_client) (self_tenant_id obo_client)))"
       "resolve_sample (self_tenant_id obo_client) (self_additionally_allowed_tenants obo_client)
          override_options = Inr tenant"
       "req_url request = token_endpoint (self_authority obo_client) tenant"
    by (elim exE conjE) (rule that)
  from f(5) have "tenant = ''other-tenant''" by (simp add: obo_resolution(2))
  with f(6) have u: "req_url request
      = ''https://login.microsoftonline.com/other-tenant/oauth2/v2.0/token''"
    by (simp add: obo_resolution(4))
  from f(4) have a: "map_of p ''aud''
      = Some (JStr ''https://login.microsoftonline.com/tenant/oauth2/v2.0/token'')"
    by (simp add: obo_resolution(3))
  from r f(1,2,3) a u
  show "\<exists>request header payload signature p.
      get_on_behalf_of_request loads_sample dumps_sample resolve_sample 1000 ''jti-1''
          obo_client [''scope-a''] (Certificate sample_certificate) ''user-assertion''
          override_options = Inr request \<and>
      map_of (req_body request) ''client_assertion''
        = Some (JStr (header @ ''.'' @ payload @ ''.'' @ signature)) \<and>
      split_on CHR ''.'' (header @ ''.'' @ payload @ ''.'' @ signature)
        = [header, payload, signature] \<and>
      decode_segment loads_sample payload = Inr (JObj p) \<and>
      map_of p ''aud'' = Some (JStr ''https://login.microsoftonline.com/tenant/oauth2/v2.0/token'') \<and>
      req_url request = ''https://login.microsoftonline.com/other-tenant/oauth2/v2.0/token''"
    by (intro exI conjI)
next
  from obo_requests_built(2) [of loads_sample dumps_sample 1000 "''jti-1''" "[''scope-a'']"
      sample_certificate "''old-rt''"]
  obtain request where
    r: "get_refresh_token_on_behalf_of_request loads_sample dumps_sample resolve_sample 1000
          ''jti-1'' obo_client [''scope-a''] (Certificate sample_certificate) ''old-rt''
          override_options = Inr request"
    by blast
  have d: "get_refresh_token_on_behalf_of_request = get_on_behalf_of_request \<or>
           get_refresh_token_on_behalf_of_request = get_refresh_token_on_behalf_of_request"
    by (rule disjI2) (rule refl)
  from on_behalf_of_assertion_audience
    [where builder = get_refresh_token_on_behalf_of_request and self = obo_client
       and loads = loads_sample and dumps = dumps_sample and resolve_tenant = resolve_sample
       and now = 1000 and jti = "''jti-1''" and cert = sample_certificate
       and kwargs = override_options and request = request and scopes = "[''scope-a'']"
       and subject = "''old-rt''",
     OF d r obo_resolution(1) obo_roundtrip]
  obtain header payload signature p tenant where
    f: "map_of (req_body request) ''client_assertion''
          = Some (JStr (header @ ''.'' @ payload @ ''.'' @ signature))"
       "split_on CHR ''.'' (header @ ''.'' @ payload @ ''.'' @ signature)
          = [header, payload, signature]"
       "decode_segment loads_sample payload = Inr (JObj p)"
       "map_of p ''aud''
          = Some (JStr (token_endpoint (self_authority obo_client) (self_tenant_id obo_client)))"
       "resolve_sample (self_tenant_id obo_client) (self_additionally_allowed_tenants obo_client)
          override_options = Inr tenant"
       "req_url request = token_endpoint (self_authority obo_client) tenant"
    by (elim exE conjE) (rule that)
  from f(5) have "tenant = ''other-tenant''" by (simp add: obo_resolution(2))
  with f(6) have u: "req_url request
      = ''https://login.microsoftonline.com/other-tenant/oauth2/v2.0/token''"
    by (simp add: obo_resolution(4))
  from f(4) have a: "map_of p ''aud''
      = Some (JStr ''https://login.microsoftonline.com/tenant/oauth2/v2.0/token'')"
    by (simp add: obo_resolution(3))
  from r f(1,2,3) a u
  show "\<exists>request header payload signature p.
      get_refresh_token_on_behalf_of_request loads_sample dumps_sample resolve_sample 1000
          ''jti-1'' obo_client [''scope-a''] (Certificate sample_certificate) ''old-rt''
          override_options = Inr request \<and>
      map_of (req_body request) ''client_assertion''
        = Some (JStr (header @ ''.'' @ payload @ ''.'' @ signature)) \<and>
      split_on CHR ''.'' (header @ ''.'' @ payload @ ''.'' @ signature)
        = [header, payload, signature] \<and>
      decode_segment loads_sample payload = Inr (JObj p) \<and>
      map_of p ''aud'' = Some (JStr ''https://login.microsoftonline.com/tenant/oauth2/v2.0/token'') \<and>
      req_url request = ''https://login.microsoftonline.com/other-tenant/oauth2/v2.0/token''"
    by (intro exI conjI)
qed

section \<open>The authentication error at concrete responses\<close>



section \<open>The pickled state\<close>

lemma client_of_obj_dict: "client_of (obj_dict self) = Some self"
  by (simp add: client_of_def obj_dict_def)

lemma setstate_obj_dict:
  "setstate [] (obj_dict self)
   = Inr (if self_custom_cache self then obj_dict self
          else obj_dict (self\<lparr>self_cache := None, self_cae_cache := None\<rparr>))"
  by (simp add: setstate_def obj_dict_def)

lemma getstate_custom: "self_custom_cache self \<Longrightarrow> getstate self = obj_dict self"
  by (simp add: getstate_def)

lemma getstate_internal:
  assumes "\<not> self_custom_cache self"
  shows "map_of (getstate self) ''_cache'' = None"
    and "map_of (getstate self) ''_cae_cache'' = None"
    and "\<exists>d. setstate [] (getstate self) = Inr d \<and>
             client_of d = Some (self\<lparr>self_cache := None, self_cae_cache := None\<rparr>)"
  using assms
  by (simp_all add: getstate_def obj_dict_def setstate_def client_of_def)

lemma getstate_other_fields:
  "k \<noteq> ''_cache'' \<Longrightarrow> k \<noteq> ''_cae_cache'' \<Longrightarrow>
   map_of (getstate self) k = map_of (obj_dict self) k"
  by (simp add: getstate_def Let_def delete_conv')

lemma get_cache_client:
  assumes "get_cache load self kwargs = Inr (c, self')"
  shows "self' = self\<lparr>self_cache := self_cache self', self_cae_cache := self_cae_cache self'\<rparr>"
  using assms
  by (auto simp add: get_cache_def initialize_cache_def
      split: option.splits sum.splits if_splits)

lemma put_cache_client:
  "put_cache self kwargs c
   = self\<lparr>self_cache := self_cache (put_cache self kwargs c),
          self_cae_cache := self_cae_cache (put_cache self kwargs c)\<rparr>"
  by (simp add: put_cache_def)

text \<open>
  What the pickled state holds is decided by the constructor's arguments, for a client as
  \<open>__init__\<close> builds it whose caches may have been created or changed since. When the
  constructor was given no cache, the state has neither \<open>_cache\<close> nor \<open>_cae_cache\<close>, and
  restoring it gives the client with both caches \<open>None\<close>. When the constructor was given
  a cache, the state holds both cache attributes as they are, and restoring it gives the
  client back. Every other attribute is in the state as it is in the object.
\<close>

lemma pickled_state_by_constructor_arguments:
  assumes "init normalize_authority default_authority pipeline tenant client authority cache
             cae_cache allowed options = Inr self0"
    and "self = self0\<lparr>self_cache := cache', self_cae_cache := cae_cache'\<rparr>"
  shows "(if cache = None \<and> cae_cache = None then
            map_of (getstate self) ''_cache'' = None \<and>
            map_of (getstate self) ''_cae_cache'' = None \<and>
            (\<exists>d. setstate [] (getstate self) = Inr d \<and>
                 client_of d = Some (self\<lparr>self_cache := None, self_cae_cache := None\<rparr>))
          else
            map_of (getstate self) ''_cache'' = Some (Cache cache') \<and>
            map_of (getstate self) ''_cae_cache'' = Some (Cache cae_cache') \<and>
            (\<exists>d. setstate [] (getstate self) = Inr d \<and> client_of d = Some self)) \<and>
         (\<forall>k. k \<noteq> ''_cache'' \<longrightarrow> k \<noteq> ''_cae_cache'' \<longrightarrow>
              map_of (getstate self) k = map_of (obj_dict self) k)"
proof -
  from assms have cc: "self_custom_cache self = (cache \<noteq> None \<or> cae_cache \<noteq> None)"
    by (simp add: init_is_adfs(2))
  from assms(2) have c: "self_cache self = cache'" "self_cae_cache self = cae_cache'"
    by simp_all
  have other: "\<forall>k. k \<noteq> ''_cache'' \<longrightarrow> k \<noteq> ''_cae_cache'' \<longrightarrow>
              map_of (getstate self) k = map_of (obj_dict self) k"
    by (simp add: getstate_other_fields)
  show ?thesis
  proof (cases "cache = None \<and> cae_cache = None")
    case True
    with cc have n: "\<not> self_custom_cache self" by simp
    from True getstate_internal [OF n] other show ?thesis by simp
  next
    case False
    with cc have y: "self_custom_cache self" by simp
    have "map_of (obj_dict self) ''_cache'' = Some (Cache cache')"
      "map_of (obj_dict self) ''_cae_cache'' = Some (Cache cae_cache')"
      by (simp_all add: obj_dict_def c)
    moreover have "setstate [] (obj_dict self) = Inr (obj_dict self)"
      by (simp add: setstate_obj_dict y)
    ultimately show ?thesis
      using False other by (simp add: getstate_custom [OF y] client_of_obj_dict)
  qed
qed

text \<open>
  C8 fails where the caller supplied one cache and the client created the other. A client
  built with \<open>cache\<close> and without \<open>cae_cache\<close> creates its CAE cache at the first call with
  \<open>enable_cae\<close>. \<open>_custom_cache\<close> is true, so \<open>__getstate__\<close> deletes nothing (against
  its comment, "Remove the non-picklable entries"): the state holds the cache the client
  created, and \<open>__setstate__\<close> restores it as it is, where the statement has it excluded
  and recreated as uninitialized.
\<close>

theorem internally_created_cache_in_snapshot:
  "init normalize_sample ''https://login.microsoftonline.com'' () ''tenant'' ''client'' None
     (Some sample_cache) None None None = Inr sample_client \<and>
   get_cache load_sample sample_client cae_options
     = Inr (TokenCache, sample_client\<lparr>self_cae_cache := Some TokenCache\<rparr>) \<and>
   getstate (sample_client\<lparr>self_cae_cache := Some TokenCache\<rparr>)
     = obj_dict (sample_client\<lparr>self_cae_cache := Some TokenCache\<rparr>) \<and>
   map_of (getstate (sample_client\<lparr>self_cae_cache := Some TokenCache\<rparr>)) ''_cae_cache''
     = Some (Cache (Some TokenCache)) \<and>
   setstate [] (getstate (sample_client\<lparr>self_cae_cache := Some TokenCache\<rparr>))
     = Inr (obj_dict (sample_client\<lparr>self_cae_cache := Some TokenCache\<rparr>))"
  by (simp add: init_def sample_client_def get_cache_def active_cache_def initialize_cache_def
      cae_options_def no_options_def getstate_def obj_dict_def setstate_def lower_def
      lower_char_def)

theorem internally_created_cache_in_snapshot_witness:
  "map_of (getstate (sample_client\<lparr>self_cae_cache := Some TokenCache\<rparr>)) ''_cae_cache''
     = Some (Cache (Some TokenCache)) \<and>
   map_of (getstate (sample_client\<lparr>self_cae_cache := Some TokenCache\<rparr>)) ''_cache''
     = Some (Cache (Some sample_cache))"
proof -
  note state = internally_created_cache_in_snapshot
    [THEN conjunct2, THEN conjunct2, THEN conjunct1]
  note cae = internally_created_cache_in_snapshot
    [THEN conjunct2, THEN conjunct2, THEN conjunct2, THEN conjunct1]
  have "map_of (obj_dict (sample_client\<lparr>self_cae_cache := Some TokenCache\<rparr>)) ''_cache''
        = Some (Cache (Some sample_cache))"
    by (simp add: obj_dict_def sample_client_def)
  with state cae show ?thesis by simp
qed

end
